theory Spec2Isabelle
  imports Main "HOL-Library.Word"
begin

text \<open>
  A model of the website generator's module \<^verbatim>\<open>index.tsx\<close>: the module state with the page
  elements its handlers touch, the generation pipeline, the placeholder resolution in
  \<^verbatim>\<open>populateUI\<close> and \<^verbatim>\<open>updatePreview\<close>, the undo history, the export handler and the local
  store. The generative models, the browser's HTML parser and serialiser, \<^verbatim>\<open>fetch\<close> and the
  store's quota are collaborators: they appear as functions the program calls, with
  failure as a possible result. The repository also holds an earlier revision of the
  module, without favicon, meta elements, local store and the minimum prompt length; the
  model follows \<^verbatim>\<open>index.tsx\<close>.
\<close>

section \<open>Strings\<close>

text \<open>
  A JavaScript string is a sequence of UTF-16 code units; \<open>length\<close> counts code units, as
  \<^verbatim>\<open>.length\<close> does. Literals of the source are written \<open>js ''...''\<close>.
\<close>

type_synonym js_string = "16 word list"

definition js :: "string \<Rightarrow> js_string" where
  "js s = map of_char s"

text \<open>\<^verbatim>\<open>String.prototype.trim\<close>: white space and line terminators of ECMAScript.\<close>

definition is_whitespace :: "16 word \<Rightarrow> bool" where
  "is_whitespace c =
     (c \<in> set [0x09, 0x0A, 0x0B, 0x0C, 0x0D, 0x20, 0xA0, 0x1680,
                0x2028, 0x2029, 0x202F, 0x205F, 0x3000, 0xFEFF]
      \<or> (0x2000 \<le> c \<and> c \<le> 0x200A))"

definition trim :: "js_string \<Rightarrow> js_string" where
  "trim s = rev (dropWhile is_whitespace (rev (dropWhile is_whitespace s)))"

definition is_ascii_upper :: "16 word \<Rightarrow> bool" where
  "is_ascii_upper c = (0x41 \<le> c \<and> c \<le> 0x5A)"

definition is_ascii_lower :: "16 word \<Rightarrow> bool" where
  "is_ascii_lower c = (0x61 \<le> c \<and> c \<le> 0x7A)"

definition is_ascii_digit :: "16 word \<Rightarrow> bool" where
  "is_ascii_digit c = (0x30 \<le> c \<and> c \<le> 0x39)"

definition ascii_lower :: "16 word \<Rightarrow> 16 word" where
  "ascii_lower c = (if is_ascii_upper c then c + 0x20 else c)"

text \<open>
  \<^verbatim>\<open>id.replace(/[^a-z0-9]/gi, '_').toLowerCase()\<close>: without the \<^verbatim>\<open>u\<close> flag the pattern
  works on code units, and case-insensitive matching never maps a code unit above 127 to
  an ASCII letter, so exactly the ASCII letters and digits survive.
\<close>

definition safeId :: "js_string \<Rightarrow> js_string" where
  "safeId i =
     map ascii_lower
       (map (\<lambda>c. if is_ascii_lower c \<or> is_ascii_upper c \<or> is_ascii_digit c then c else 0x5F) i)"

definition image_filename :: "js_string \<Rightarrow> js_string" where
  "image_filename i = safeId i @ js ''.jpeg''"

text \<open>\<^verbatim>\<open>s.includes(sub)\<close>.\<close>

fun js_includes :: "'a list \<Rightarrow> 'a list \<Rightarrow> bool" where
  "js_includes [] sub = (sub = [])"
| "js_includes (x # xs) sub = (take (length sub) (x # xs) = sub \<or> js_includes xs sub)"

text \<open>\<^verbatim>\<open>xs.join(sep)\<close>.\<close>

fun join :: "js_string \<Rightarrow> js_string list \<Rightarrow> js_string" where
  "join sep [] = []"
| "join sep [x] = x"
| "join sep (x # y # ys) = x @ sep @ join sep (y # ys)"

text \<open>
  \<^verbatim>\<open>xs.slice(0, e)\<close>: a negative end counts from the end of the array, and the end is
  clamped to the array.
\<close>

definition slice0 :: "'a list \<Rightarrow> int \<Rightarrow> 'a list" where
  "slice0 xs e =
     (let n = int (length xs);
          k = (if e < 0 then max (n + e) 0 else min e n)
      in take (nat k) xs)"

section \<open>The parsed document\<close>

text \<open>
  The HTML parser and serialiser of the browser are collaborators of the program. What
  the program does between \<^verbatim>\<open>parseFromString\<close> and \<^verbatim>\<open>outerHTML\<close> is modelled on the parsed
  tree: an element has a tag name, its attributes in document order, and its children.
  Nodes other than elements are represented by text nodes. The elements are HTML
  elements, with their tag names in lower case as the parser makes them; elements of
  the SVG and MathML namespaces are not told apart from them.

  A document parsed as \<^verbatim>\<open>text/html\<close> always has the shape html > (head, body). Beside
  these two the html element holds no element, only character data: comments before the
  head, white space and comments between head and body, comments after the body. The
  record keeps them in their three places, since the serialiser writes them; no query of
  the program reaches them.
\<close>

type_synonym attrs = "(js_string \<times> js_string) list"

datatype node = Element js_string attrs "node list" | Text js_string

record document =
  html_attrs :: attrs
  html_before :: "js_string list"
  head_attrs :: attrs
  head_nodes :: "node list"
  html_between :: "js_string list"
  body_attrs :: attrs
  body_nodes :: "node list"
  html_after :: "js_string list"

text \<open>
  Writing an entry of an ordered key-value collection: an existing key keeps its place.
  This is \<^verbatim>\<open>setAttribute\<close> on an attribute list and \<^verbatim>\<open>folder.file(name, data)\<close> on the
  entries of a JSZip folder.
\<close>

fun put :: "'k \<Rightarrow> 'v \<Rightarrow> ('k \<times> 'v) list \<Rightarrow> ('k \<times> 'v) list" where
  "put k v [] = [(k, v)]"
| "put k v ((k', v') # kvs) = (if k' = k then (k, v) # kvs else (k', v') # put k v kvs)"

definition setAttribute :: "js_string \<Rightarrow> js_string \<Rightarrow> attrs \<Rightarrow> attrs" where
  "setAttribute k v a = put k v a"

definition getAttribute :: "js_string \<Rightarrow> attrs \<Rightarrow> js_string option" where
  "getAttribute k a = map_of a k"

text \<open>A selector is a test on an element's tag name and attributes.\<close>

type_synonym selector = "js_string \<Rightarrow> attrs \<Rightarrow> bool"

text \<open>\<^verbatim>\<open>getElementById(i)\<close>: an element's ID is its non-empty \<^verbatim>\<open>id\<close> attribute.\<close>

definition by_id :: "js_string \<Rightarrow> selector" where
  "by_id i t a = (i \<noteq> [] \<and> getAttribute (js ''id'') a = Some i)"

text \<open>\<^verbatim>\<open>querySelector('style')\<close>.\<close>

definition sel_style :: selector where
  "sel_style t a = (t = js ''style'')"

text \<open>\<^verbatim>\<open>querySelector('meta[name="description"]')\<close> and its sibling for keywords.\<close>

definition sel_meta :: "js_string \<Rightarrow> selector" where
  "sel_meta n t a = (t = js ''meta'' \<and> getAttribute (js ''name'') a = Some n)"

text \<open>
  \<^verbatim>\<open>querySelector("link[rel*='icon']")\<close>: the value of \<^verbatim>\<open>rel\<close> is compared ASCII
  case-insensitively in an HTML document.
\<close>

definition sel_link_icon :: selector where
  "sel_link_icon t a =
     (t = js ''link'' \<and>
      (case getAttribute (js ''rel'') a of
         None \<Rightarrow> False
       | Some r \<Rightarrow> js_includes (map ascii_lower r) (js ''icon'')))"

text \<open>Whether a subtree holds an element the selector matches.\<close>

fun has_node :: "selector \<Rightarrow> node \<Rightarrow> bool"
  and has_nodes :: "selector \<Rightarrow> node list \<Rightarrow> bool" where
  "has_node P (Text s) = False"
| "has_node P (Element t a cs) = (P t a \<or> has_nodes P cs)"
| "has_nodes P [] = False"
| "has_nodes P (n # ns) = (has_node P n \<or> has_nodes P ns)"

text \<open>
  A write to an element: what it makes of the element's attributes, given the element's
  tag name. \<^verbatim>\<open>el.setAttribute(k, v)\<close> is \<open>\<lambda>tag. setAttribute k v\<close> on every element; the
  assignment to a property such as \<^verbatim>\<open>src\<close> depends on the tag.
\<close>

type_synonym rewrite = "js_string \<Rightarrow> attrs \<Rightarrow> attrs"

text \<open>
  \<^verbatim>\<open>querySelector\<close> followed by a write to the element found: the first match in tree
  order gets its attributes rewritten by \<open>f\<close>; without a match nothing changes.
\<close>

fun update_node :: "selector \<Rightarrow> rewrite \<Rightarrow> node \<Rightarrow> node"
  and update_nodes :: "selector \<Rightarrow> rewrite \<Rightarrow> node list \<Rightarrow> node list" where
  "update_node P f (Text s) = Text s"
| "update_node P f (Element t a cs) =
     (if P t a then Element t (f t a) cs else Element t a (update_nodes P f cs))"
| "update_nodes P f [] = []"
| "update_nodes P f (n # ns) =
     (if has_node P n then update_node P f n # ns else n # update_nodes P f ns)"

text \<open>\<^verbatim>\<open>textContent\<close>: the text of all descendants, in order.\<close>

fun textContent :: "node \<Rightarrow> js_string"
  and textContents :: "node list \<Rightarrow> js_string" where
  "textContent (Text s) = s"
| "textContent (Element t a cs) = textContents cs"
| "textContents [] = []"
| "textContents (n # ns) = textContent n @ textContents ns"

text \<open>\<^verbatim>\<open>querySelector\<close>: the first match in tree order.\<close>

fun first_node :: "selector \<Rightarrow> node \<Rightarrow> node option"
  and first_nodes :: "selector \<Rightarrow> node list \<Rightarrow> node option" where
  "first_node P (Text s) = None"
| "first_node P (Element t a cs) =
     (if P t a then Some (Element t a cs) else first_nodes P cs)"
| "first_nodes P [] = None"
| "first_nodes P (n # ns) =
     (case first_node P n of Some e \<Rightarrow> Some e | None \<Rightarrow> first_nodes P ns)"

text \<open>\<^verbatim>\<open>querySelector(sel)?.remove()\<close>: the first match leaves the tree with its subtree.\<close>

fun remove_first :: "selector \<Rightarrow> node list \<Rightarrow> node list" where
  "remove_first P [] = []"
| "remove_first P (Text s # ns) = Text s # remove_first P ns"
| "remove_first P (Element t a cs # ns) =
     (if P t a then ns
      else if has_nodes P cs then Element t a (remove_first P cs) # ns
      else Element t a cs # remove_first P ns)"

text \<open>\<^verbatim>\<open>querySelectorAll(sel).forEach(s => s.remove())\<close>.\<close>

fun remove_all :: "selector \<Rightarrow> node list \<Rightarrow> node list" where
  "remove_all P [] = []"
| "remove_all P (Text s # ns) = Text s # remove_all P ns"
| "remove_all P (Element t a cs # ns) =
     (if P t a then remove_all P ns else Element t a (remove_all P cs) # remove_all P ns)"

text \<open>
  The same queries on a document. Tree order is: the html element, the head element,
  the nodes of the head, the body element, the nodes of the body.
\<close>

definition doc_has :: "selector \<Rightarrow> document \<Rightarrow> bool" where
  "doc_has P d =
     (P (js ''html'') (html_attrs d) \<or> P (js ''head'') (head_attrs d) \<or>
      has_nodes P (head_nodes d) \<or> P (js ''body'') (body_attrs d) \<or>
      has_nodes P (body_nodes d))"

definition doc_update_first :: "selector \<Rightarrow> rewrite \<Rightarrow> document \<Rightarrow> document" where
  "doc_update_first P f d =
     (if P (js ''html'') (html_attrs d)
      then d\<lparr>html_attrs := f (js ''html'') (html_attrs d)\<rparr>
      else if P (js ''head'') (head_attrs d)
      then d\<lparr>head_attrs := f (js ''head'') (head_attrs d)\<rparr>
      else if has_nodes P (head_nodes d)
      then d\<lparr>head_nodes := update_nodes P f (head_nodes d)\<rparr>
      else if P (js ''body'') (body_attrs d)
      then d\<lparr>body_attrs := f (js ''body'') (body_attrs d)\<rparr>
      else d\<lparr>body_nodes := update_nodes P f (body_nodes d)\<rparr>)"

text \<open>\<^verbatim>\<open>doc.querySelector('style')\<close>; the html, head and body elements are no style elements.\<close>

definition doc_first_style :: "document \<Rightarrow> node option" where
  "doc_first_style d =
     (case first_nodes sel_style (head_nodes d) of
        Some e \<Rightarrow> Some e
      | None \<Rightarrow> first_nodes sel_style (body_nodes d))"

definition doc_remove_first_style :: "document \<Rightarrow> document" where
  "doc_remove_first_style d =
     (if has_nodes sel_style (head_nodes d)
      then d\<lparr>head_nodes := remove_first sel_style (head_nodes d)\<rparr>
      else d\<lparr>body_nodes := remove_first sel_style (body_nodes d)\<rparr>)"

text \<open>\<^verbatim>\<open>doc.head.querySelectorAll('style').forEach(s => s.remove())\<close>.\<close>

definition remove_head_styles :: "document \<Rightarrow> document" where
  "remove_head_styles d = d\<lparr>head_nodes := remove_all sel_style (head_nodes d)\<rparr>"

text \<open>\<^verbatim>\<open>doc.head.appendChild(n)\<close>.\<close>

definition head_appendChild :: "node \<Rightarrow> document \<Rightarrow> document" where
  "head_appendChild n d = d\<lparr>head_nodes := head_nodes d @ [n]\<rparr>"

text \<open>
  \<^verbatim>\<open>createElement('style')\<close> with \<^verbatim>\<open>textContent = css\<close>: an empty string leaves the
  element without a child.
\<close>

definition style_element :: "js_string \<Rightarrow> node" where
  "style_element css = Element (js ''style'') [] (if css = [] then [] else [Text css])"

section \<open>Data of the program\<close>

text \<open>
  The fields of the source's objects carry a prefix here, since \<open>id\<close>, \<open>url\<close>, \<open>prompt\<close>,
  \<open>html\<close> and \<open>css\<close> name other things in the theory.
\<close>

text \<open>An item of \<^verbatim>\<open>imagePrompts\<close>: \<^verbatim>\<open>{id, prompt}\<close>.\<close>

record image_prompt =
  ip_id :: js_string
  ip_prompt :: js_string

text \<open>An element of \<^verbatim>\<open>latestGeneratedImages\<close>: \<^verbatim>\<open>{id, url, prompt}\<close>.\<close>

record image =
  img_id :: js_string
  img_url :: js_string
  img_prompt :: js_string

text \<open>\<^verbatim>\<open>latestFavicon\<close>: \<^verbatim>\<open>{url, prompt}\<close> or null.\<close>

record favicon =
  fav_url :: js_string
  fav_prompt :: js_string

text \<open>An entry of \<^verbatim>\<open>history\<close>: \<^verbatim>\<open>{html, css}\<close>.\<close>

record snapshot =
  snap_html :: js_string
  snap_css :: js_string

text \<open>
  The parsed reply of the structured generation. \<^verbatim>\<open>websiteGenerationSchema\<close> asks for all
  six fields, but the program checks the value that \<^verbatim>\<open>JSON.parse\<close> returns against
  nothing: a field the reply lacks reads as \<^verbatim>\<open>undefined\<close>, which is \<open>None\<close> here. The array
  \<^verbatim>\<open>imagePrompts\<close> is always there in this record; what happens without it is told with
  the collaborators below. Fields and items of another type than the schema's are not
  modelled.
\<close>

record website_data =
  wd_pageTitle :: "js_string option"
  wd_metaDescription :: "js_string option"
  wd_metaKeywords :: "js_string option"
  wd_faviconPrompt :: "js_string option"
  wd_htmlContent :: "js_string option"
  wd_imagePrompts :: "image_prompt list"

text \<open>
  What a template literal, or a string parameter of the DOM such as the markup given to
  \<^verbatim>\<open>parseFromString\<close>, makes of a value that may be \<^verbatim>\<open>undefined\<close>.
\<close>

definition to_string :: "js_string option \<Rightarrow> js_string" where
  "to_string v = (case v of None \<Rightarrow> js ''undefined'' | Some s \<Rightarrow> s)"

text \<open>
  A value that is tested for truth before it is used as a string: \<^verbatim>\<open>undefined\<close> is falsy,
  as the empty string is.
\<close>

definition or_empty :: "js_string option \<Rightarrow> js_string" where
  "or_empty v = (case v of None \<Rightarrow> [] | Some s \<Rightarrow> s)"

text \<open>The record kept under the key \<^verbatim>\<open>ai-website-gen-data\<close> of the local store.\<close>

record saved_data =
  sd_html :: js_string
  sd_css :: js_string
  sd_images :: "image list"
  sd_favicon :: "favicon option"
  sd_timestamp :: nat

type_synonym blob = js_string

type_synonym zip_folder = "(js_string \<times> blob) list"

text \<open>The archive handed to the user: \<^verbatim>\<open>index.html\<close> and the folder \<^verbatim>\<open>images\<close>.\<close>

record archive =
  index_html :: js_string
  images_folder :: zip_folder

text \<open>
  What a handler does to the outside: a message shown with \<^verbatim>\<open>alert\<close>, a request to a
  model, a \<^verbatim>\<open>fetch\<close>, a download. \<open>FriendlyErrorMessage e\<close> stands for
  \<^verbatim>\<open>getFriendlyErrorMessage(e)\<close>; its wording plays no part here.
\<close>

datatype message = Literal js_string | FriendlyErrorMessage js_string

datatype event =
    Alert message
  | StructuredRequest js_string
  | RefineRequest js_string
  | FaviconRequest js_string
  | ImageRequest js_string
  | Fetch js_string
  | Download js_string archive


text \<open>
  The collaborators. Calls made in a loop get the position of the item, so that two
  calls with the same prompt may end differently.

  \<^item> \<open>generateStructured\<close>, given the detailed prompt and the language, stands for the
    request \<^verbatim>\<open>ai.models.generateContent\<close> of \<^verbatim>\<open>generateWebsite\<close>, \<^verbatim>\<open>JSON.parse\<close> of the
    reply's text and the first reads of \<^verbatim>\<open>imagePrompts\<close>. \<open>Inl e\<close> is the case in which the
    \<^verbatim>\<open>catch\<close> block of \<^verbatim>\<open>generateWebsite\<close> is reached with the error \<open>e\<close> before any prompt
    is refined: the request is rejected, or the text is no JSON text, or the parsed
    value has no array under \<^verbatim>\<open>imagePrompts\<close>, so that reading the field, its length or
    its \<^verbatim>\<open>map\<close> method throws at the start of \<^verbatim>\<open>improveImagePrompts\<close>. \<open>Inr w\<close> is a parsed
    value with an array under \<^verbatim>\<open>imagePrompts\<close>, whatever else it has or lacks.
  \<^item> \<open>refinePrompt\<close>, given the core idea, the position and the short prompt, is \<open>None\<close>
    when the \<^verbatim>\<open>try\<close> block of the callback throws (the request is rejected, or the reply
    has no text to trim), and the text of the reply otherwise.
  \<^item> \<open>renderFavicon\<close> and \<open>renderImage\<close> are \<open>None\<close> when the \<^verbatim>\<open>try\<close> block around the
    request throws (the request is rejected, or the reply has no first image), and
    otherwise the text that the template puts behind \<^verbatim>\<open>base64,\<close>: the bytes of the image,
    or the text \<^verbatim>\<open>undefined\<close> for an image without bytes.
  \<^item> \<open>fetch_blob\<close> is \<open>None\<close> when \<^verbatim>\<open>fetch\<close> or \<^verbatim>\<open>response.blob()\<close> rejects.
  \<^item> \<open>setItem_ok\<close> tells whether the local store accepts a record (it refuses one that
    exceeds its quota).
\<close>

record collaborators =
  generateStructured :: "js_string \<Rightarrow> js_string \<Rightarrow> js_string + website_data"
  refinePrompt :: "js_string \<Rightarrow> nat \<Rightarrow> js_string \<Rightarrow> js_string option"
  renderFavicon :: "js_string \<Rightarrow> js_string option"
  renderImage :: "nat \<Rightarrow> js_string \<Rightarrow> js_string option"
  parseFromString :: "js_string \<Rightarrow> document"
  outerHTML :: "document \<Rightarrow> js_string"
  fetch_blob :: "js_string \<Rightarrow> blob option"
  setItem_ok :: "saved_data \<Rightarrow> bool"

text \<open>
  The module state and the parts of the page the handlers read and write. Left out are
  the progress bar, the gallery markup (a rendering of images and favicon), the tab
  selection, the label and the disabled flag of the export button (set and restored
  within one click) and the auto-save timer.
\<close>

record app_state =
  aiInitialized :: bool
  latestGeneratedImages :: "image list"
  latestFavicon :: "favicon option"
  history :: "snapshot list"
  historyIndex :: int
  htmlEditor :: js_string
  cssEditor :: js_string
  previewSrcdoc :: js_string
  undoDisabled :: bool
  redoDisabled :: bool
  inputSectionHidden :: bool
  resultContainerHidden :: bool
  loadingHidden :: bool
  generateBtnDisabled :: bool
  localStorage :: "saved_data option"

datatype js_error = TypeError

section \<open>Preview\<close>

text \<open>
  \<^verbatim>\<open>el.src = url\<close>. The cast to \<^verbatim>\<open>HTMLImageElement\<close> in the source exists for the type
  checker only: \<^verbatim>\<open>getElementById\<close> returns whatever element carries the id. The
  assignment sets the \<^verbatim>\<open>src\<close> attribute where the element's interface has a \<^verbatim>\<open>src\<close>
  property that reflects the attribute: on the elements listed here. On any other
  element (a \<^verbatim>\<open>div\<close>, a \<^verbatim>\<open>section\<close>) it creates a property of the script object and the
  attributes stay as they are.
\<close>

definition has_src_property :: "js_string \<Rightarrow> bool" where
  "has_src_property t =
     (t \<in> set [js ''img'', js ''iframe'', js ''embed'', js ''script'', js ''input'',
                js ''audio'', js ''video'', js ''source'', js ''track'', js ''frame''])"

definition assign_src :: "js_string \<Rightarrow> rewrite" where
  "assign_src url t a = (if has_src_property t then setAttribute (js ''src'') url a else a)"

text \<open>
  \<^verbatim>\<open>imgElement.src = image.url\<close> for the element of the image's id, if there is one.
\<close>

definition inject_image :: "image \<Rightarrow> document \<Rightarrow> document" where
  "inject_image im d = doc_update_first (by_id (img_id im)) (assign_src (img_url im)) d"

text \<open>
  \<^verbatim>\<open>link.href = url\<close> for the first icon link, if there is one. The selector matches
  \<^verbatim>\<open>link\<close> elements only, and their \<^verbatim>\<open>href\<close> property reflects the attribute.
\<close>

definition inject_favicon :: "favicon option \<Rightarrow> document \<Rightarrow> document" where
  "inject_favicon fav d =
     (case fav of
        None \<Rightarrow> d
      | Some f \<Rightarrow>
          doc_update_first sel_link_icon (\<lambda>tag. setAttribute (js ''href'') (fav_url f)) d)"

text \<open>The body of \<^verbatim>\<open>updatePreview\<close> between parsing and serialising.\<close>

definition updatePreview_doc ::
  "js_string \<Rightarrow> image list \<Rightarrow> favicon option \<Rightarrow> document \<Rightarrow> document" where
  "updatePreview_doc css images fav d =
     (let d1 = remove_head_styles d;
          d2 = head_appendChild (style_element css) d1;
          d3 = fold inject_image images d2
      in inject_favicon fav d3)"

definition updatePreview :: "collaborators \<Rightarrow> js_string \<Rightarrow> js_string \<Rightarrow> app_state \<Rightarrow> app_state" where
  "updatePreview c html css s =
     s\<lparr>previewSrcdoc :=
         outerHTML c
           (updatePreview_doc css (latestGeneratedImages s) (latestFavicon s)
              (parseFromString c html))\<rparr>"

text \<open>
  The parser, given the markup the serialiser wrote for a tree, builds that tree again.
  This is a property of the browser, not of the program; where a statement about markup
  needs it, it is a hypothesis about the trees concerned.
\<close>

definition reads_back :: "collaborators \<Rightarrow> document \<Rightarrow> bool" where
  "reads_back c d = (parseFromString c (outerHTML c d) = d)"

section \<open>History\<close>

definition updateUndoRedoButtons :: "app_state \<Rightarrow> app_state" where
  "updateUndoRedoButtons s =
     s\<lparr>undoDisabled := (historyIndex s \<le> 0),
       redoDisabled := (historyIndex s \<ge> int (length (history s)) - 1)\<rparr>"

definition pushHistoryState :: "js_string \<Rightarrow> js_string \<Rightarrow> app_state \<Rightarrow> app_state" where
  "pushHistoryState html css s =
     (let h = (if historyIndex s < int (length (history s)) - 1
               then slice0 (history s) (historyIndex s + 1)
               else history s);
          h' = h @ [\<lparr>snap_html = html, snap_css = css\<rparr>]
      in updateUndoRedoButtons (s\<lparr>history := h', historyIndex := int (length h') - 1\<rparr>))"

text \<open>
  \<^verbatim>\<open>history[historyIndex]\<close> is undefined outside the array, and reading \<^verbatim>\<open>state.html\<close>
  then throws.
\<close>

definition loadStateFromHistory :: "collaborators \<Rightarrow> app_state \<Rightarrow> js_error + app_state" where
  "loadStateFromHistory c s =
     (if 0 \<le> historyIndex s \<and> historyIndex s < int (length (history s))
      then let state = history s ! nat (historyIndex s);
               s1 = s\<lparr>htmlEditor := snap_html state, cssEditor := snap_css state\<rparr>
           in Inr (updateUndoRedoButtons (updatePreview c (snap_html state) (snap_css state) s1))
      else Inl TypeError)"

definition undoClick :: "collaborators \<Rightarrow> app_state \<Rightarrow> js_error + app_state" where
  "undoClick c s =
     (if historyIndex s > 0
      then loadStateFromHistory c (s\<lparr>historyIndex := historyIndex s - 1\<rparr>)
      else Inr s)"

definition redoClick :: "collaborators \<Rightarrow> app_state \<Rightarrow> js_error + app_state" where
  "redoClick c s =
     (if historyIndex s < int (length (history s)) - 1
      then loadStateFromHistory c (s\<lparr>historyIndex := historyIndex s + 1\<rparr>)
      else Inr s)"

text \<open>
  The three statements with which \<^verbatim>\<open>populateUI\<close> starts the history anew:
  \<^verbatim>\<open>history = []; historyIndex = -1; pushHistoryState(html, css)\<close>.
\<close>

definition resetHistory :: "js_string \<Rightarrow> js_string \<Rightarrow> app_state \<Rightarrow> app_state" where
  "resetHistory html css s = pushHistoryState html css (s\<lparr>history := [], historyIndex := - 1\<rparr>)"

text \<open>The click on \<^verbatim>\<open>update-preview-btn\<close>.\<close>

definition updatePreviewClick :: "collaborators \<Rightarrow> app_state \<Rightarrow> app_state" where
  "updatePreviewClick c s =
     pushHistoryState (htmlEditor s) (cssEditor s)
       (updatePreview c (htmlEditor s) (cssEditor s) s)"

section \<open>Generation pipeline\<close>

definition setLoadingState :: "bool \<Rightarrow> app_state \<Rightarrow> app_state" where
  "setLoadingState isLoading s = s\<lparr>loadingHidden := \<not> isLoading\<rparr>"

definition showError :: "message \<Rightarrow> app_state \<Rightarrow> event list \<times> app_state" where
  "showError m s = ([Alert m], (setLoadingState False s)\<lparr>inputSectionHidden := False\<rparr>)"

text \<open>
  \<^verbatim>\<open>improveImagePrompts\<close>: one request per prompt; a failed request gives the prompt back
  as it came.
\<close>

definition improveImagePrompts ::
  "collaborators \<Rightarrow> image_prompt list \<Rightarrow> js_string \<Rightarrow> image_prompt list" where
  "improveImagePrompts c prompts coreIdea =
     map (\<lambda>(index, p).
            case refinePrompt c coreIdea index (ip_prompt p) of
              Some text \<Rightarrow> \<lparr>ip_id = ip_id p, ip_prompt = trim text\<rparr>
            | None \<Rightarrow> p)
         (enumerate 0 prompts)"

definition data_url :: "js_string \<Rightarrow> js_string" where
  "data_url base64ImageBytes = js ''data:image/jpeg;base64,'' @ base64ImageBytes"

definition generateFavicon :: "collaborators \<Rightarrow> js_string \<Rightarrow> favicon option" where
  "generateFavicon c prompt =
     (case renderFavicon c prompt of
        Some bytes \<Rightarrow> Some \<lparr>fav_url = data_url bytes, fav_prompt = prompt\<rparr>
      | None \<Rightarrow> None)"

definition failed_image_url :: js_string where
  "failed_image_url = js ''https://via.placeholder.com/1280x720.png?text=Image+Generation+Failed''"

text \<open>\<^verbatim>\<open>generateImages\<close>: the loop pushes one result per prompt, rendered or not.\<close>

fun generateImages_loop ::
  "collaborators \<Rightarrow> nat \<Rightarrow> image_prompt list \<Rightarrow> image list \<Rightarrow> image list" where
  "generateImages_loop c i [] results = results"
| "generateImages_loop c i (p # ps) results =
     generateImages_loop c (Suc i) ps
       (results @
        [case renderImage c i (ip_prompt p) of
           Some bytes \<Rightarrow>
             \<lparr>img_id = ip_id p, img_url = data_url bytes, img_prompt = ip_prompt p\<rparr>
         | None \<Rightarrow>
             \<lparr>img_id = ip_id p, img_url = failed_image_url, img_prompt = ip_prompt p\<rparr>])"

definition generateImages :: "collaborators \<Rightarrow> image_prompt list \<Rightarrow> image list" where
  "generateImages c prompts = generateImages_loop c 0 prompts []"

text \<open>
  The find-or-create steps of \<^verbatim>\<open>populateUI\<close>: the meta element of a name, the icon link,
  and \<open>populate_head\<close> for the three of them in the order of the source. A string is
  truthy when it is not empty.
\<close>

definition inject_meta :: "js_string \<Rightarrow> js_string \<Rightarrow> document \<Rightarrow> document" where
  "inject_meta name content d =
     (if content = [] then d
      else if doc_has (sel_meta name) d
      then doc_update_first (sel_meta name) (\<lambda>tag. setAttribute (js ''content'') content) d
      else head_appendChild
             (Element (js ''meta'') [(js ''name'', name), (js ''content'', content)] []) d)"

definition create_favicon_link :: "favicon option \<Rightarrow> document \<Rightarrow> document" where
  "create_favicon_link fav d =
     (case fav of
        None \<Rightarrow> d
      | Some f \<Rightarrow>
          if doc_has sel_link_icon d
          then doc_update_first sel_link_icon (\<lambda>tag. setAttribute (js ''href'') (fav_url f)) d
          else head_appendChild
                 (Element (js ''link'')
                    [(js ''rel'', js ''icon''), (js ''type'', js ''image/jpeg''),
                     (js ''href'', fav_url f)] []) d)"

definition populate_head ::
  "js_string \<Rightarrow> js_string \<Rightarrow> favicon option \<Rightarrow> document \<Rightarrow> document" where
  "populate_head metaDesc metaKeywords fav d =
     (let d1 = inject_meta (js ''description'') metaDesc d;
          d2 = inject_meta (js ''keywords'') metaKeywords d1
      in create_favicon_link fav d2)"

text \<open>
  The body of \<^verbatim>\<open>populateUI\<close> between parsing and serialising: the document that goes to
  the HTML editor, without its first style element, and the text of that element, which
  goes to the CSS editor.
\<close>

definition populateUI_doc ::
  "js_string \<Rightarrow> js_string \<Rightarrow> favicon option \<Rightarrow> document \<Rightarrow> document \<times> js_string" where
  "populateUI_doc metaDesc metaKeywords fav d =
     (let d3 = populate_head metaDesc metaKeywords fav d;
          cssContent = (case doc_first_style d3 of None \<Rightarrow> [] | Some e \<Rightarrow> textContent e)
      in (doc_remove_first_style d3, cssContent))"

text \<open>
  \<^verbatim>\<open>populateUI\<close>. The document it built goes to the HTML editor as markup, and
  \<^verbatim>\<open>updatePreview\<close> parses that markup again.
\<close>

definition populateUI ::
  "collaborators \<Rightarrow> js_string \<Rightarrow> image list \<Rightarrow> js_string \<Rightarrow> js_string \<Rightarrow> app_state \<Rightarrow> app_state" where
  "populateUI c html images metaDesc metaKeywords s =
     (let s1 = s\<lparr>latestGeneratedImages := images\<rparr>;
          (doc, cssContent) =
             populateUI_doc metaDesc metaKeywords (latestFavicon s1) (parseFromString c html);
          htmlContent = outerHTML c doc;
          s2 = s1\<lparr>htmlEditor := htmlContent, cssEditor := cssContent\<rparr>;
          s3 = resetHistory htmlContent cssContent s2;
          s4 = updatePreview c htmlContent cssContent s3
      in s4\<lparr>resultContainerHidden := False\<rparr>)"

text \<open>
  \<^verbatim>\<open>generateWebsite\<close>. The \<^verbatim>\<open>catch\<close> block is reached from the structured generation
  only: the later stages catch their own errors, and \<^verbatim>\<open>populateUI\<close> parses whatever text
  it is given. A missing \<^verbatim>\<open>htmlContent\<close> is parsed as the text \<^verbatim>\<open>undefined\<close>, a missing
  \<^verbatim>\<open>faviconPrompt\<close> enters the request as that text (and the favicon keeps it for the
  gallery, which renders it so), missing meta values are falsy.
\<close>

definition generateWebsite ::
  "collaborators \<Rightarrow> js_string \<Rightarrow> js_string \<Rightarrow> js_string \<Rightarrow> app_state \<Rightarrow> event list \<times> app_state" where
  "generateWebsite c detailedPrompt coreIdea language s =
     (let s1 = (setLoadingState True s)
                 \<lparr>generateBtnDisabled := True, inputSectionHidden := True,
                  resultContainerHidden := True,
                  latestGeneratedImages := [], latestFavicon := None\<rparr>
      in case generateStructured c detailedPrompt language of
           Inl error \<Rightarrow>
             (let (ev, s2) = showError (FriendlyErrorMessage error) s1
              in (StructuredRequest detailedPrompt # ev,
                  (setLoadingState False s2)\<lparr>generateBtnDisabled := False\<rparr>))
         | Inr websiteData \<Rightarrow>
             (let improvedPrompts = improveImagePrompts c (wd_imagePrompts websiteData) coreIdea;
                  faviconData = generateFavicon c (to_string (wd_faviconPrompt websiteData));
                  s2 = s1\<lparr>latestFavicon := faviconData\<rparr>;
                  generatedImages = generateImages c improvedPrompts;
                  s3 = populateUI c (to_string (wd_htmlContent websiteData)) generatedImages
                         (or_empty (wd_metaDescription websiteData))
                         (or_empty (wd_metaKeywords websiteData)) s2
              in (StructuredRequest detailedPrompt
                    # map (\<lambda>p. RefineRequest (ip_prompt p)) (wd_imagePrompts websiteData)
                    @ FaviconRequest (to_string (wd_faviconPrompt websiteData))
                    # map (\<lambda>p. ImageRequest (ip_prompt p)) improvedPrompts,
                  (setLoadingState False s3)\<lparr>generateBtnDisabled := False\<rparr>)))"

text \<open>The prompt the submit handler builds from the form.\<close>

definition buildDetailedPrompt ::
  "js_string \<Rightarrow> js_string \<Rightarrow> js_string \<Rightarrow> js_string \<Rightarrow> js_string list \<Rightarrow> js_string" where
  "buildDetailedPrompt userPrompt language pageType imageCount selectedSections =
     js ''Generate a website based on this core idea: '' @ [0x22] @ userPrompt @ [0x22]
       @ js ''.'' @ [0x0A, 0x0A]
     @ js ''**Website Structure Constraints:**'' @ [0x0A]
     @ js ''- **Language:** The text content of the website MUST be written in ''
       @ language @ js ''.'' @ [0x0A]
     @ js ''- **Page Type:** This should be structured as a '' @ [0x22] @ pageType @ [0x22]
       @ js ''.'' @ [0x0A]
     @ js ''- **Navigation:** The website MUST include a responsive navigation menu. On desktop, show links horizontally. On mobile, show a hamburger menu that toggles the links. The menu must include anchor links to the following sections: ''
       @ join (js '', '') selectedSections @ js ''.'' @ [0x0A]
     @ (if selectedSections \<noteq> []
        then js ''- **Required Sections:** The website MUST include the following sections in a logical order: ''
               @ join (js '', '') selectedSections @ js ''.'' @ [0x0A]
        else [])
     @ js ''- **Image Count:** Generate exactly '' @ imageCount
       @ js '' unique placeholder images for the site. Ensure the '' @ [0x27]
       @ js ''imagePrompts'' @ [0x27] @ js '' array in your response contains ''
       @ imageCount @ js '' items.'' @ [0x0A]
     @ js ''- **Date:** The current year is 2025. Ensure all dates and copyright notices use the year 2025.''
       @ [0x0A]
     @ [0x0A] @ js ''Respond with ONLY the JSON object, adhering strictly to the provided schema.''"

definition MIN_PROMPT_LENGTH :: nat where
  "MIN_PROMPT_LENGTH = 15"

definition msg_ai_not_initialized :: message where
  "msg_ai_not_initialized = Literal (js ''AI not initialized. Please verify your API Key.'')"

definition msg_prompt_empty :: message where
  "msg_prompt_empty =
     Literal (js ''Bitte geben Sie eine Beschreibung f'' @ [0xFC] @ js ''r Ihre Website ein.'')"

definition msg_prompt_short :: message where
  "msg_prompt_short =
     Literal (js ''Bitte geben Sie eine detailliertere Beschreibung ein (mindestens 15 Zeichen).'')"

text \<open>The submit handler of the form; \<open>inputValue\<close> is the text of the prompt field.\<close>

definition submitForm ::
  "collaborators \<Rightarrow> js_string \<Rightarrow> js_string \<Rightarrow> js_string \<Rightarrow> js_string \<Rightarrow> js_string list
     \<Rightarrow> app_state \<Rightarrow> event list \<times> app_state" where
  "submitForm c inputValue language pageType imageCount selectedSections s =
     (if \<not> aiInitialized s then showError msg_ai_not_initialized s
      else let userPrompt = trim inputValue
           in if userPrompt = [] then showError msg_prompt_empty s
              else if length userPrompt < MIN_PROMPT_LENGTH then showError msg_prompt_short s
              else generateWebsite c
                     (buildDetailedPrompt userPrompt language pageType imageCount selectedSections)
                     userPrompt language s)"

section \<open>Export\<close>

definition msg_generate_first :: message where
  "msg_generate_first = Literal (js ''Bitte generieren Sie zuerst eine Website.'')"

definition msg_export_failed :: message where
  "msg_export_failed = Literal (js ''Fehler beim Exportieren.'')"

text \<open>
  The loop over the content images. An image without an element of its id is passed
  over; a \<^verbatim>\<open>fetch\<close> that fails leaves the loop for the \<^verbatim>\<open>catch\<close> block (\<open>None\<close>). The
  element found is fetched for and filed whatever its tag; the assignment to \<^verbatim>\<open>src\<close>
  changes its attributes as described for the preview.
\<close>

fun export_images ::
  "collaborators \<Rightarrow> image list \<Rightarrow> document \<times> zip_folder
     \<Rightarrow> event list \<times> (document \<times> zip_folder) option" where
  "export_images c [] st = ([], Some st)"
| "export_images c (im # ims) (doc, folder) =
     (if \<not> doc_has (by_id (img_id im)) doc then export_images c ims (doc, folder)
      else let filename = image_filename (img_id im);
               doc' = doc_update_first (by_id (img_id im))
                        (assign_src (js ''images/'' @ filename)) doc
           in case fetch_blob c (img_url im) of
                None \<Rightarrow> ([Fetch (img_url im)], None)
              | Some blob \<Rightarrow>
                  (let (ev, r) = export_images c ims (doc', put filename blob folder)
                   in (Fetch (img_url im) # ev, r)))"

definition export_favicon ::
  "collaborators \<Rightarrow> favicon option \<Rightarrow> document \<times> zip_folder
     \<Rightarrow> event list \<times> (document \<times> zip_folder) option" where
  "export_favicon c fav st =
     (case fav of
        None \<Rightarrow> ([], Some st)
      | Some f \<Rightarrow>
          (case st of (doc, folder) \<Rightarrow>
             if \<not> doc_has sel_link_icon doc then ([], Some st)
             else let faviconFilename = js ''favicon.jpeg'';
                      doc' = doc_update_first sel_link_icon
                               (\<lambda>tag. setAttribute (js ''href'') (js ''images/'' @ faviconFilename))
                               doc
                  in case fetch_blob c (fav_url f) of
                       None \<Rightarrow> ([Fetch (fav_url f)], None)
                     | Some blob \<Rightarrow>
                         ([Fetch (fav_url f)], Some (doc', put faviconFilename blob folder))))"

text \<open>The click on \<^verbatim>\<open>export-btn\<close>.\<close>

definition exportClick :: "collaborators \<Rightarrow> app_state \<Rightarrow> event list \<times> app_state" where
  "exportClick c s =
     (let htmlValue = htmlEditor s
      in if htmlValue = [] \<or> length (latestGeneratedImages s) = 0
         then ([Alert msg_generate_first], s)
         else case export_images c (latestGeneratedImages s) (parseFromString c htmlValue, []) of
                (ev1, None) \<Rightarrow>
                  (let (ev, s') = showError msg_export_failed s in (ev1 @ ev, s'))
              | (ev1, Some st1) \<Rightarrow>
                  (case export_favicon c (latestFavicon s) st1 of
                     (ev2, None) \<Rightarrow>
                       (let (ev, s') = showError msg_export_failed s in (ev1 @ ev2 @ ev, s'))
                   | (ev2, Some (doc, folder)) \<Rightarrow>
                       (let doc' = head_appendChild (style_element (cssEditor s))
                                     (remove_head_styles doc);
                            finalHtml = outerHTML c doc'
                        in (ev1 @ ev2 @
                            [Download (js ''ai-generated-website.zip'')
                               \<lparr>index_html = finalHtml, images_folder = folder\<rparr>], s))))"

section \<open>Local store\<close>

text \<open>
  \<^verbatim>\<open>saveStateToLocalStorage\<close>; \<open>now\<close> is \<^verbatim>\<open>Date.now()\<close>. A write the store refuses is
  tried again without the images and the favicon.
\<close>

definition saveStateToLocalStorage :: "collaborators \<Rightarrow> nat \<Rightarrow> app_state \<Rightarrow> app_state" where
  "saveStateToLocalStorage c now s =
     (let htmlVal = htmlEditor s; cssVal = cssEditor s
      in if htmlVal = [] \<and> length (latestGeneratedImages s) = 0 then s
         else let data = \<lparr>sd_html = htmlVal, sd_css = cssVal,
                          sd_images = latestGeneratedImages s,
                          sd_favicon = latestFavicon s, sd_timestamp = now\<rparr>
              in if setItem_ok c data then s\<lparr>localStorage := Some data\<rparr>
                 else let data' = data\<lparr>sd_images := [], sd_favicon := None\<rparr>
                      in if setItem_ok c data' then s\<lparr>localStorage := Some data'\<rparr> else s)"

definition loadStateFromLocalStorage :: "collaborators \<Rightarrow> app_state \<Rightarrow> app_state" where
  "loadStateFromLocalStorage c s =
     (case localStorage s of
        None \<Rightarrow> s
      | Some data \<Rightarrow>
          if sd_html data = [] then s
          else let s1 = s\<lparr>latestGeneratedImages := sd_images data,
                          latestFavicon := sd_favicon data,
                          htmlEditor := sd_html data, cssEditor := sd_css data\<rparr>;
                   s2 = updatePreview c (sd_html data) (sd_css data) s1;
                   s3 = s2\<lparr>inputSectionHidden := True, resultContainerHidden := False\<rparr>
               in pushHistoryState (sd_html data) (sd_css data) (s3\<lparr>history := []\<rparr>))"

text \<open>
  The state of a freshly loaded page: the module's variables as the module initialises
  them, the editors empty, the input form shown and the result hidden. The flags of the
  page elements come from the page's markup, which is not part of the module; nothing
  stated below about this state depends on them.
\<close>

definition initial_state :: "bool \<Rightarrow> saved_data option \<Rightarrow> app_state" where
  "initial_state ai stored =
     \<lparr>aiInitialized = ai, latestGeneratedImages = [], latestFavicon = None,
      history = [], historyIndex = - 1, htmlEditor = [], cssEditor = [],
      previewSrcdoc = [], undoDisabled = True, redoDisabled = True,
      inputSectionHidden = False, resultContainerHidden = True, loadingHidden = True,
      generateBtnDisabled = False, localStorage = stored\<rparr>"

section \<open>Sequences of history operations\<close>

text \<open>
  The operations of the history: a push (\<^verbatim>\<open>pushHistoryState\<close>), the clicks on undo
  and redo, and the reset of \<^verbatim>\<open>populateUI\<close>. A sequence stops at the first error.
\<close>

datatype history_op =
    Push js_string js_string
  | Undo
  | Redo
  | Reset js_string js_string

fun apply_op :: "collaborators \<Rightarrow> history_op \<Rightarrow> app_state \<Rightarrow> js_error + app_state" where
  "apply_op c (Push html css) s = Inr (pushHistoryState html css s)"
| "apply_op c Undo s = undoClick c s"
| "apply_op c Redo s = redoClick c s"
| "apply_op c (Reset html css) s = Inr (resetHistory html css s)"

fun run_ops :: "collaborators \<Rightarrow> history_op list \<Rightarrow> app_state \<Rightarrow> js_error + app_state" where
  "run_ops c [] s = Inr s"
| "run_ops c (x # xs) s =
     (case apply_op c x s of Inl e \<Rightarrow> Inl e | Inr s' \<Rightarrow> run_ops c xs s')"

definition cursor_valid :: "app_state \<Rightarrow> bool" where
  "cursor_valid s = (0 \<le> historyIndex s \<and> historyIndex s \<le> int (length (history s)) - 1)"

text \<open>The buttons show what \<^verbatim>\<open>updateUndoRedoButtons\<close> last computed.\<close>

definition buttons_synced :: "app_state \<Rightarrow> bool" where
  "buttons_synced s =
     (undoDisabled s = (historyIndex s \<le> 0) \<and>
      redoDisabled s = (historyIndex s \<ge> int (length (history s)) - 1))"

section \<open>Concrete collaborators and states for the examples\<close>

definition empty_document :: document where
  "empty_document =
     \<lparr>html_attrs = [], html_before = [], head_attrs = [], head_nodes = [],
      html_between = [], body_attrs = [], body_nodes = [], html_after = []\<rparr>"

text \<open>
  Collaborators for the examples: every model call fails, the parser returns the empty
  document, every fetch and every write to the store succeeds.
\<close>

definition failing_collaborators :: collaborators where
  "failing_collaborators =
     \<lparr>generateStructured = (\<lambda>p l. Inl (js ''Failed to fetch'')),
      refinePrompt = (\<lambda>idea i p. None),
      renderFavicon = (\<lambda>p. None),
      renderImage = (\<lambda>i p. None),
      parseFromString = (\<lambda>h. empty_document),
      outerHTML = (\<lambda>d. js ''<html><head></head><body></body></html>''),
      fetch_blob = (\<lambda>u. Some u),
      setItem_ok = (\<lambda>d. True)\<rparr>"

text \<open>A state with a generated site: one image, a favicon, markup in the editor.\<close>

definition site_state :: app_state where
  "site_state =
     (initial_state True None)
       \<lparr>latestGeneratedImages :=
          [\<lparr>img_id = js ''hero-image'', img_url = data_url (js ''AAAA''),
            img_prompt = js ''fresh bread display''\<rparr>],
        latestFavicon := Some \<lparr>fav_url = data_url (js ''BBBB''), fav_prompt = js ''logo''\<rparr>,
        htmlEditor := js ''<html><head></head><body></body></html>'',
        inputSectionHidden := True, resultContainerHidden := False\<rparr>"

definition demo_website_data :: website_data where
  "demo_website_data =
     \<lparr>wd_pageTitle = Some (js ''Bakery''), wd_metaDescription = Some (js ''A bakery''),
      wd_metaKeywords = Some (js ''bread''), wd_faviconPrompt = Some (js ''logo''),
      wd_htmlContent = Some (js ''<html><head></head><body></body></html>''),
      wd_imagePrompts =
        [\<lparr>ip_id = js ''hero-image'', ip_prompt = js ''fresh bread display''\<rparr>,
         \<lparr>ip_id = js ''menu-image'', ip_prompt = js ''pastry counter''\<rparr>]\<rparr>"

text \<open>
  Collaborators whose structured generation succeeds; the refinement of the first prompt
  and the rendering of the second image fail.
\<close>

definition demo_collaborators :: collaborators where
  "demo_collaborators =
     failing_collaborators
       \<lparr>generateStructured := (\<lambda>p l. Inr demo_website_data),
        refinePrompt := (\<lambda>idea i p. if i = 0 then None else Some (js '' warm pastry counter '')),
        renderImage := (\<lambda>i p. if i = 0 then Some (js ''AAAA'') else None)\<rparr>"


text \<open>A parsed document with one image placeholder.\<close>

definition demo_document :: document where
  "demo_document =
     empty_document
       \<lparr>head_nodes := [Element (js ''style'') [] [Text (js ''body{}'')]],
        body_nodes := [Element (js ''img'') [(js ''id'', js ''hero-image'')] []]\<rparr>"

definition demo_images :: "image list" where
  "demo_images =
     [\<lparr>img_id = js ''hero-image'', img_url = data_url (js ''AAAA''),
       img_prompt = js ''fresh bread display''\<rparr>,
      \<lparr>img_id = js ''gone-image'', img_url = data_url (js ''CCCC''),
       img_prompt = js ''pastry counter''\<rparr>]"

definition demo_favicon :: favicon where
  "demo_favicon = \<lparr>fav_url = data_url (js ''BBBB''), fav_prompt = js ''logo''\<rparr>"

text \<open>What the export loop makes of it.\<close>

definition demo_exported :: document where
  "demo_exported =
     demo_document
       \<lparr>body_nodes :=
          [Element (js ''img'')
             [(js ''id'', js ''hero-image''), (js ''src'', js ''images/hero_image.jpeg'')] []]\<rparr>"

text \<open>
  A browser for the examples, given by two tables: the documents its parser builds for
  the markup it knows (every other markup is read as one fixed document), and the markup
  its serialiser writes for the documents it knows.
\<close>

definition table_browser ::
  "(js_string \<times> document) list \<Rightarrow> (document \<times> js_string) list \<Rightarrow> document \<Rightarrow> collaborators" where
  "table_browser parsed written other =
     failing_collaborators
       \<lparr>parseFromString := (\<lambda>markup. case map_of parsed markup of Some d \<Rightarrow> d | None \<Rightarrow> other),
        outerHTML := (\<lambda>d. case map_of written d of Some markup \<Rightarrow> markup | None \<Rightarrow> [])\<rparr>"

text \<open>
  The pages of the example, as documents and as markup: the head holds the meta element
  and the icon link that \<^verbatim>\<open>populateUI\<close> creates, or nothing; then the style element, or
  none; the image in the body has its source, or not.
\<close>

definition demo_page :: "bool \<Rightarrow> bool \<Rightarrow> bool \<Rightarrow> document" where
  "demo_page with_head with_style with_src =
     empty_document
       \<lparr>head_nodes :=
          (if with_head
           then [Element (js ''meta'')
                   [(js ''name'', js ''description''), (js ''content'', js ''A bakery'')] [],
                 Element (js ''link'')
                   [(js ''rel'', js ''icon''), (js ''type'', js ''image/jpeg''),
                    (js ''href'', data_url (js ''BBBB''))] []]
           else [])
          @ (if with_style then [Element (js ''style'') [] [Text (js ''body{}'')]] else []),
        body_nodes :=
          [Element (js ''img'')
             ((js ''id'', js ''hero-image'')
              # (if with_src then [(js ''src'', data_url (js ''AAAA''))] else [])) []]\<rparr>"

definition demo_markup :: "bool \<Rightarrow> bool \<Rightarrow> bool \<Rightarrow> js_string" where
  "demo_markup with_head with_style with_src =
     js ''<html><head>''
     @ (if with_head
        then js ''<meta name='' @ [0x22] @ js ''description'' @ [0x22]
             @ js '' content='' @ [0x22] @ js ''A bakery'' @ [0x22]
             @ js ''><link rel='' @ [0x22] @ js ''icon'' @ [0x22]
             @ js '' type='' @ [0x22] @ js ''image/jpeg'' @ [0x22]
             @ js '' href='' @ [0x22] @ js ''data:image/jpeg;base64,BBBB'' @ [0x22] @ js ''>''
        else [])
     @ (if with_style then js ''<style>body{}</style>'' else [])
     @ js ''</head><body><img id='' @ [0x22] @ js ''hero-image'' @ [0x22]
     @ (if with_src
        then js '' src='' @ [0x22] @ js ''data:image/jpeg;base64,AAAA'' @ [0x22]
        else [])
     @ js ''></body></html>''"

text \<open>The markup of the document with one image placeholder above.\<close>

definition demo_start :: js_string where
  "demo_start = demo_markup False True False"

text \<open>The browser of the example reads and writes five of these pages.\<close>

definition demo_browser :: collaborators where
  "demo_browser =
     table_browser
       [(demo_markup False True False, demo_page False True False),
        (demo_markup False True True, demo_page False True True),
        (demo_markup True False False, demo_page True False False),
        (demo_markup True True True, demo_page True True True),
        (demo_markup True False True, demo_page True False True)]
       [(demo_page False True False, demo_markup False True False),
        (demo_page False True True, demo_markup False True True),
        (demo_page True False False, demo_markup True False False),
        (demo_page True True True, demo_markup True True True),
        (demo_page True False True, demo_markup True False True)]
       empty_document"

text \<open>
  A page with a \<^verbatim>\<open>pre\<close> element, with or without the style element of the preview, as
  markup and as document; \<open>text\<close> is what stands between the tags, or the text node of the
  element.
\<close>

definition pre_markup :: "bool \<Rightarrow> js_string \<Rightarrow> js_string" where
  "pre_markup styled text =
     js ''<html><head>'' @ (if styled then js ''<style>body{}</style>'' else [])
     @ js ''</head><body><pre>'' @ text @ js ''</pre></body></html>''"

definition pre_document :: "bool \<Rightarrow> js_string \<Rightarrow> document" where
  "pre_document styled text =
     empty_document
       \<lparr>head_nodes := (if styled then [Element (js ''style'') [] [Text (js ''body{}'')]] else []),
        body_nodes := [Element (js ''pre'') [] [Text text]]\<rparr>"

text \<open>
  A browser on these pages. As the HTML standard has it, the parser drops a line feed
  that comes first in a \<^verbatim>\<open>pre\<close> element, and the serialiser writes the text of the element
  as it is.
\<close>

definition pre_browser :: collaborators where
  "pre_browser =
     table_browser
       [(pre_markup False ([0x0A, 0x0A] @ js ''x''), pre_document False ([0x0A] @ js ''x'')),
        (pre_markup True ([0x0A] @ js ''x''), pre_document True (js ''x''))]
       [(pre_document True ([0x0A] @ js ''x''), pre_markup True ([0x0A] @ js ''x'')),
        (pre_document True (js ''x''), pre_markup True (js ''x''))]
       empty_document"

definition demo_site :: app_state where
  "demo_site = site_state\<lparr>latestGeneratedImages := demo_images, latestFavicon := Some demo_favicon\<rparr>"

section \<open>Auxiliary notions of the proofs\<close>

text \<open>A rewrite of attributes that no selector test of \<open>P\<close> can see.\<close>

definition keeps :: "rewrite \<Rightarrow> selector \<Rightarrow> bool" where
  "keeps f P = (\<forall>t a. P t (f t a) = P t a)"

text \<open>The document as one tree, rooted in the html element.\<close>

definition doc_root :: "document \<Rightarrow> node" where
  "doc_root d =
     Element (js ''html'') (html_attrs d)
       (map Text (html_before d)
        @ Element (js ''head'') (head_attrs d) (head_nodes d)
        # map Text (html_between d)
        @ Element (js ''body'') (body_attrs d) (body_nodes d)
        # map Text (html_after d))"

text \<open>
  The HTML parser reads the content of a style element as raw text: in a parsed document
  a style element has no element below it.
\<close>

fun style_holds_text :: "node \<Rightarrow> bool"
  and styles_hold_text :: "node list \<Rightarrow> bool" where
  "style_holds_text (Text s) = True"
| "style_holds_text (Element t a cs) =
     (if t = js ''style'' then \<not> has_nodes (\<lambda>t a. True) cs else styles_hold_text cs)"
| "styles_hold_text [] = True"
| "styles_hold_text (n # ns) = (style_holds_text n \<and> styles_hold_text ns)"

definition parsed_document :: "document \<Rightarrow> bool" where
  "parsed_document d = (styles_hold_text (head_nodes d) \<and> styles_hold_text (body_nodes d))"

text \<open>A selector that matches no style element.\<close>

definition misses_style :: "selector \<Rightarrow> bool" where
  "misses_style P = (\<forall>a. \<not> P (js ''style'') a)"

text \<open>The selector has a match, and the rewrite of the first match changes nothing.\<close>

definition settled :: "selector \<Rightarrow> rewrite \<Rightarrow> document \<Rightarrow> bool" where
  "settled P f d = (doc_has P d \<and> doc_update_first P f d = d)"

text \<open>Of the images with the same id, the last one.\<close>

fun last_by_id :: "image list \<Rightarrow> image list" where
  "last_by_id [] = []"
| "last_by_id (x # xs) =
     (if img_id x \<in> img_id ` set xs then last_by_id xs else x # last_by_id xs)"

text \<open>The two injection steps of \<^verbatim>\<open>updatePreview\<close>, images first.\<close>

definition inject_assets :: "favicon option \<Rightarrow> image list \<Rightarrow> document \<Rightarrow> document" where
  "inject_assets fav xs d = inject_favicon fav (fold inject_image xs d)"

section \<open>Frame lemmas\<close>

lemma updatePreview_frame [simp]:
  "history (updatePreview c h k s) = history s"
  "historyIndex (updatePreview c h k s) = historyIndex s"
  "undoDisabled (updatePreview c h k s) = undoDisabled s"
  "redoDisabled (updatePreview c h k s) = redoDisabled s"
  "htmlEditor (updatePreview c h k s) = htmlEditor s"
  "cssEditor (updatePreview c h k s) = cssEditor s"
  "latestGeneratedImages (updatePreview c h k s) = latestGeneratedImages s"
  "latestFavicon (updatePreview c h k s) = latestFavicon s"
  "inputSectionHidden (updatePreview c h k s) = inputSectionHidden s"
  "resultContainerHidden (updatePreview c h k s) = resultContainerHidden s"
  by (simp_all add: updatePreview_def)

lemma pushHistoryState_frame [simp]:
  "htmlEditor (pushHistoryState h k s) = htmlEditor s"
  "cssEditor (pushHistoryState h k s) = cssEditor s"
  "latestGeneratedImages (pushHistoryState h k s) = latestGeneratedImages s"
  "latestFavicon (pushHistoryState h k s) = latestFavicon s"
  "inputSectionHidden (pushHistoryState h k s) = inputSectionHidden s"
  "resultContainerHidden (pushHistoryState h k s) = resultContainerHidden s"
  by (simp_all add: pushHistoryState_def updateUndoRedoButtons_def Let_def)

section \<open>The history\<close>

lemma push_history:
  "history (pushHistoryState h k s) =
     (if historyIndex s < int (length (history s)) - 1
      then slice0 (history s) (historyIndex s + 1) else history s)
     @ [\<lparr>snap_html = h, snap_css = k\<rparr>]"
  by (simp add: pushHistoryState_def updateUndoRedoButtons_def Let_def)

lemma push_index:
  "historyIndex (pushHistoryState h k s) = int (length (history (pushHistoryState h k s))) - 1"
  by (simp add: pushHistoryState_def updateUndoRedoButtons_def Let_def)

lemma push_synced: "buttons_synced (pushHistoryState h k s)"
  by (simp add: pushHistoryState_def updateUndoRedoButtons_def Let_def buttons_synced_def)

lemma push_valid: "cursor_valid (pushHistoryState h k s)"
  by (simp add: cursor_valid_def push_index) (simp add: push_history)

lemma reset_history:
  "history (resetHistory h k s) = [\<lparr>snap_html = h, snap_css = k\<rparr>]"
  "historyIndex (resetHistory h k s) = 0"
  by (simp_all add: resetHistory_def push_history push_index)

lemma load_ok:
  "cursor_valid s \<Longrightarrow>
     \<exists>s'. loadStateFromHistory c s = Inr s' \<and> history s' = history s
       \<and> historyIndex s' = historyIndex s \<and> buttons_synced s'"
  by (auto simp: loadStateFromHistory_def cursor_valid_def Let_def updateUndoRedoButtons_def
        buttons_synced_def)

lemma undo_moves:
  assumes "cursor_valid s" "0 < historyIndex s"
  shows "\<exists>s'. undoClick c s = Inr s' \<and> history s' = history s
           \<and> historyIndex s' = historyIndex s - 1 \<and> buttons_synced s'"
  using assms load_ok[of "s\<lparr>historyIndex := historyIndex s - 1\<rparr>" c]
  by (auto simp: undoClick_def cursor_valid_def)

lemma redo_moves:
  assumes "cursor_valid s" "historyIndex s < int (length (history s)) - 1"
  shows "\<exists>s'. redoClick c s = Inr s' \<and> history s' = history s
           \<and> historyIndex s' = historyIndex s + 1 \<and> buttons_synced s'"
  using assms load_ok[of "s\<lparr>historyIndex := historyIndex s + 1\<rparr>" c]
  by (auto simp: redoClick_def cursor_valid_def)

lemma undo_at_start: "historyIndex s \<le> 0 \<Longrightarrow> undoClick c s = Inr s"
  by (simp add: undoClick_def)

lemma redo_at_end: "historyIndex s \<ge> int (length (history s)) - 1 \<Longrightarrow> redoClick c s = Inr s"
  by (simp add: redoClick_def)

lemma apply_op_valid:
  assumes "cursor_valid s"
  shows "\<exists>s'. apply_op c x s = Inr s' \<and> cursor_valid s'
           \<and> (buttons_synced s \<longrightarrow> buttons_synced s')"
proof (cases x)
  case (Push h k)
  then show ?thesis by (simp add: push_valid push_synced)
next
  case Undo
  show ?thesis
  proof (cases "0 < historyIndex s")
    case True
    with assms undo_moves[of s c] Undo show ?thesis
      by (auto simp: cursor_valid_def)
  next
    case False
    with assms Undo show ?thesis by (simp add: undo_at_start)
  qed
next
  case Redo
  show ?thesis
  proof (cases "historyIndex s < int (length (history s)) - 1")
    case True
    with assms redo_moves[of s c] Redo show ?thesis
      by (auto simp: cursor_valid_def)
  next
    case False
    with assms Redo show ?thesis by (simp add: redo_at_end)
  qed
next
  case (Reset h k)
  then show ?thesis by (simp add: resetHistory_def push_valid push_synced)
qed

lemma run_ops_valid:
  "cursor_valid s \<Longrightarrow>
     \<exists>s'. run_ops c xs s = Inr s' \<and> cursor_valid s'
       \<and> (buttons_synced s \<longrightarrow> buttons_synced s')"
proof (induction xs arbitrary: s)
  case Nil
  then show ?case by simp
next
  case (Cons x xs)
  from apply_op_valid[OF Cons.prems, of c x] obtain s1
    where "apply_op c x s = Inr s1" "cursor_valid s1" "buttons_synced s \<longrightarrow> buttons_synced s1"
    by blast
  with Cons.IH[of s1] show ?case by auto
qed

lemma run_ops_from_empty:
  assumes "history s = [] \<and> historyIndex s = - 1"
  shows "\<exists>s'. run_ops c xs s = Inr s'
           \<and> ((history s' = [] \<and> historyIndex s' = - 1) \<or> cursor_valid s')"
  using assms
proof (induction xs arbitrary: s)
  case Nil
  then show ?case by simp
next
  case (Cons x xs)
  show ?case
  proof (cases x)
    case (Push h k)
    from run_ops_valid[OF push_valid, of c xs h k s] Push show ?thesis
      by auto
  next
    case Undo
    with Cons.prems Cons.IH[of s] show ?thesis by (simp add: undo_at_start)
  next
    case Redo
    with Cons.prems Cons.IH[of s] show ?thesis by (simp add: redo_at_end)
  next
    case (Reset h k)
    from run_ops_valid[OF push_valid, of c xs h k "s\<lparr>history := [], historyIndex := - 1\<rparr>"] Reset
    show ?thesis by (auto simp: resetHistory_def)
  qed
qed

lemma run_redo_at_end:
  "historyIndex s \<ge> int (length (history s)) - 1 \<Longrightarrow> run_ops c (replicate n Redo) s = Inr s"
  by (induction n) (simp_all add: redo_at_end)

text \<open>
  Claim C4. From any state, the sequence reset(h0,c0); push(h1,c1); push(h2,c2); undo;
  push(h3,c3) runs without error and ends with the history holding exactly the three
  snapshots (h0,c0), (h1,c1), (h3,c3) and the cursor at index 2. The redo button is
  disabled there, and any number of redo clicks leaves that state as it is, so the
  snapshot (h2,c2) is out of reach.
\<close>

theorem history_scenario:
  "\<exists>s'. run_ops c [Reset h0 c0, Push h1 c1, Push h2 c2, Undo, Push h3 c3] s = Inr s'
     \<and> history s' = [\<lparr>snap_html = h0, snap_css = c0\<rparr>, \<lparr>snap_html = h1, snap_css = c1\<rparr>,
                     \<lparr>snap_html = h3, snap_css = c3\<rparr>]
     \<and> historyIndex s' = 2
     \<and> redoDisabled s'
     \<and> (\<forall>n. run_ops c (replicate n Redo) s' = Inr s')"
proof -
  define s0 where "s0 = resetHistory h0 c0 s"
  define s1 where "s1 = pushHistoryState h1 c1 s0"
  define s2 where "s2 = pushHistoryState h2 c2 s1"
  have h0: "history s0 = [\<lparr>snap_html = h0, snap_css = c0\<rparr>]" "historyIndex s0 = 0"
    by (simp_all add: s0_def reset_history)
  have h1: "history s1 = [\<lparr>snap_html = h0, snap_css = c0\<rparr>, \<lparr>snap_html = h1, snap_css = c1\<rparr>]"
    by (simp add: s1_def push_history h0)
  have i1: "historyIndex s1 = 1"
    by (simp add: s1_def push_index) (simp add: push_history h0)
  have h2: "history s2 = [\<lparr>snap_html = h0, snap_css = c0\<rparr>, \<lparr>snap_html = h1, snap_css = c1\<rparr>,
       \<lparr>snap_html = h2, snap_css = c2\<rparr>]"
    by (simp add: s2_def push_history h1 i1)
  have i2: "historyIndex s2 = 2"
    by (simp add: s2_def push_index) (simp add: push_history h1 i1)
  have "cursor_valid s2"
    by (simp add: cursor_valid_def h2 i2)
  with undo_moves[of s2 c] i2 obtain s3 where
    s3: "undoClick c s2 = Inr s3" "history s3 = history s2" "historyIndex s3 = 1"
    by auto
  define s4 where "s4 = pushHistoryState h3 c3 s3"
  have h4: "history s4 = [\<lparr>snap_html = h0, snap_css = c0\<rparr>, \<lparr>snap_html = h1, snap_css = c1\<rparr>,
       \<lparr>snap_html = h3, snap_css = c3\<rparr>]"
    by (simp add: s4_def push_history s3 h2 slice0_def)
  have i4: "historyIndex s4 = 2"
    by (simp add: s4_def push_index) (simp add: push_history s3 h2 slice0_def)
  have b4: "redoDisabled s4"
    using push_synced[of h3 c3 s3] by (simp add: buttons_synced_def s4_def[symmetric] h4 i4)
  have run: "run_ops c [Reset h0 c0, Push h1 c1, Push h2 c2, Undo, Push h3 c3] s = Inr s4"
    by (simp add: s0_def[symmetric] s1_def[symmetric] s2_def[symmetric] s3 s4_def[symmetric])
  have "\<forall>n. run_ops c (replicate n Redo) s4 = Inr s4"
    by (simp add: run_redo_at_end h4 i4)
  with run h4 i4 b4 show ?thesis by blast
qed

theorem history_scenario_witness:
  "\<exists>s'. run_ops failing_collaborators
           [Reset (js ''h0'') (js ''c0''), Push (js ''h1'') (js ''c1''),
            Push (js ''h2'') (js ''c2''), Undo, Push (js ''h3'') (js ''c3'')]
           (initial_state True None) = Inr s'
     \<and> history s' = [\<lparr>snap_html = js ''h0'', snap_css = js ''c0''\<rparr>,
                     \<lparr>snap_html = js ''h1'', snap_css = js ''c1''\<rparr>,
                     \<lparr>snap_html = js ''h3'', snap_css = js ''c3''\<rparr>]
     \<and> historyIndex s' = 2
     \<and> run_ops failing_collaborators [Redo, Redo] s' = Inr s'"
proof -
  from history_scenario[of failing_collaborators "js ''h0''" "js ''c0''" "js ''h1''" "js ''c1''"
      "js ''h2''" "js ''c2''" "js ''h3''" "js ''c3''" "initial_state True None"]
  obtain s' where
    r: "run_ops failing_collaborators
           [Reset (js ''h0'') (js ''c0''), Push (js ''h1'') (js ''c1''),
            Push (js ''h2'') (js ''c2''), Undo, Push (js ''h3'') (js ''c3'')]
           (initial_state True None) = Inr s'"
      "history s' = [\<lparr>snap_html = js ''h0'', snap_css = js ''c0''\<rparr>,
                     \<lparr>snap_html = js ''h1'', snap_css = js ''c1''\<rparr>,
                     \<lparr>snap_html = js ''h3'', snap_css = js ''c3''\<rparr>]"
      "historyIndex s' = 2"
    and n: "\<forall>n. run_ops failing_collaborators (replicate n Redo) s' = Inr s'"
    by blast
  from n have "run_ops failing_collaborators (replicate 2 Redo) s' = Inr s'" by blast
  then have "run_ops failing_collaborators [Redo, Redo] s' = Inr s'"
    by (simp add: numeral_2_eq_2)
  with r show ?thesis by blast
qed

text \<open>
  Claim C5. In every state reached by history operations after a reset, an undo click
  with the cursor at 0 and a redo click with the cursor at the last index return the
  state as it is (snapshots, cursor, editors and all the rest), and the button of the
  operation is disabled.
\<close>

theorem undo_redo_at_ends_are_noops:
  assumes "run_ops c (Reset h k # xs) s0 = Inr s"
  shows "(historyIndex s = 0 \<longrightarrow> undoClick c s = Inr s \<and> undoDisabled s) \<and>
         (historyIndex s = int (length (history s)) - 1 \<longrightarrow>
            redoClick c s = Inr s \<and> redoDisabled s)"
proof -
  have "cursor_valid (resetHistory h k s0)" "buttons_synced (resetHistory h k s0)"
    by (simp_all add: resetHistory_def push_valid push_synced)
  with run_ops_valid[of "resetHistory h k s0" c xs] assms
  have "buttons_synced s" by auto
  then show ?thesis
    by (auto simp: buttons_synced_def undo_at_start redo_at_end)
qed

theorem undo_redo_at_ends_are_noops_witness:
  "run_ops failing_collaborators [Reset (js ''h0'') (js ''c0'')] (initial_state True None)
     = Inr (resetHistory (js ''h0'') (js ''c0'') (initial_state True None))
   \<and> historyIndex (resetHistory (js ''h0'') (js ''c0'') (initial_state True None)) = 0
   \<and> undoClick failing_collaborators (resetHistory (js ''h0'') (js ''c0'') (initial_state True None))
       = Inr (resetHistory (js ''h0'') (js ''c0'') (initial_state True None))
   \<and> undoDisabled (resetHistory (js ''h0'') (js ''c0'') (initial_state True None))
   \<and> redoClick failing_collaborators (resetHistory (js ''h0'') (js ''c0'') (initial_state True None))
       = Inr (resetHistory (js ''h0'') (js ''c0'') (initial_state True None))
   \<and> redoDisabled (resetHistory (js ''h0'') (js ''c0'') (initial_state True None))"
proof -
  have r: "run_ops failing_collaborators [Reset (js ''h0'') (js ''c0'')] (initial_state True None)
     = Inr (resetHistory (js ''h0'') (js ''c0'') (initial_state True None))"
    by simp
  from undo_redo_at_ends_are_noops[OF r] r show ?thesis
    by (simp add: reset_history)
qed

text \<open>
  Claim C8. From a state whose history is still empty (cursor -1) or whose cursor is a
  valid index, every sequence of push, undo, redo and reset runs without error, so no
  operation reads a snapshot that is not there, and whenever the history is not empty
  afterwards the cursor is a valid index: 0 <= cursor <= length - 1.
\<close>

theorem cursor_stays_valid:
  assumes "(history s = [] \<and> historyIndex s = - 1) \<or> cursor_valid s"
  shows "\<exists>s'. run_ops c xs s = Inr s' \<and> (history s' \<noteq> [] \<longrightarrow> cursor_valid s')"
  using assms
proof
  assume "history s = [] \<and> historyIndex s = - 1"
  from run_ops_from_empty[OF this, of c xs] show ?thesis by auto
next
  assume "cursor_valid s"
  from run_ops_valid[OF this, of c xs] show ?thesis by auto
qed

theorem cursor_stays_valid_witness:
  "history (initial_state True None) = [] \<and> historyIndex (initial_state True None) = - 1
   \<and> (\<exists>s'. run_ops failing_collaborators
              [Undo, Push (js ''h1'') (js ''c1''), Push (js ''h2'') (js ''c2''), Undo, Undo, Redo]
              (initial_state True None) = Inr s'
          \<and> history s' \<noteq> [] \<and> cursor_valid s')"
proof -
  have e: "history (initial_state True None) = [] \<and> historyIndex (initial_state True None) = - 1"
    by (simp add: initial_state_def)
  then have "(history (initial_state True None) = [] \<and> historyIndex (initial_state True None) = - 1)
      \<or> cursor_valid (initial_state True None)" ..
  from cursor_stays_valid[OF this, of failing_collaborators
      "[Undo, Push (js ''h1'') (js ''c1''), Push (js ''h2'') (js ''c2''), Undo, Undo, Redo]"]
  obtain s' where s': "run_ops failing_collaborators
              [Undo, Push (js ''h1'') (js ''c1''), Push (js ''h2'') (js ''c2''), Undo, Undo, Redo]
              (initial_state True None) = Inr s'"
     "history s' \<noteq> [] \<longrightarrow> cursor_valid s'"
    by blast
  have "history s' \<noteq> []"
    using s'(1)
    by (auto simp: initial_state_def undoClick_def redoClick_def loadStateFromHistory_def
          pushHistoryState_def updateUndoRedoButtons_def updatePreview_def Let_def)
  with s' e show ?thesis by blast
qed

section \<open>The generation pipeline\<close>

lemma generateImages_loop_map:
  "generateImages_loop c i ps acc =
     acc @ map (\<lambda>(j, p). case renderImage c j (ip_prompt p) of
                   Some bytes \<Rightarrow>
                     \<lparr>img_id = ip_id p, img_url = data_url bytes, img_prompt = ip_prompt p\<rparr>
                 | None \<Rightarrow>
                     \<lparr>img_id = ip_id p, img_url = failed_image_url, img_prompt = ip_prompt p\<rparr>)
              (enumerate i ps)"
  by (induction ps arbitrary: i acc) simp_all

lemma populateUI_images:
  "latestGeneratedImages (populateUI c html images md mk s) = images"
  by (simp add: populateUI_def Let_def split_def resetHistory_def)

lemma generateWebsite_images:
  assumes "generateStructured c dp lang = Inr wd"
  shows "latestGeneratedImages (snd (generateWebsite c dp idea lang s)) =
           generateImages c (improveImagePrompts c (wd_imagePrompts wd) idea)"
  using assms
  by (simp add: generateWebsite_def Let_def setLoadingState_def populateUI_images)

lemma improve_length: "length (improveImagePrompts c ps idea) = length ps"
  by (simp add: improveImagePrompts_def)

lemma improve_nth:
  "i < length ps \<Longrightarrow> improveImagePrompts c ps idea ! i =
     (case refinePrompt c idea i (ip_prompt (ps ! i)) of
        Some text \<Rightarrow> \<lparr>ip_id = ip_id (ps ! i), ip_prompt = trim text\<rparr>
      | None \<Rightarrow> ps ! i)"
  by (simp add: improveImagePrompts_def nth_enumerate_eq)

lemma generateImages_length: "length (generateImages c ps) = length ps"
  by (simp add: generateImages_def generateImages_loop_map)

lemma generateImages_nth:
  "i < length ps \<Longrightarrow> generateImages c ps ! i =
     (case renderImage c i (ip_prompt (ps ! i)) of
        Some bytes \<Rightarrow>
          \<lparr>img_id = ip_id (ps ! i), img_url = data_url bytes, img_prompt = ip_prompt (ps ! i)\<rparr>
      | None \<Rightarrow>
          \<lparr>img_id = ip_id (ps ! i), img_url = failed_image_url, img_prompt = ip_prompt (ps ! i)\<rparr>)"
  by (simp add: generateImages_def generateImages_loop_map nth_enumerate_eq)

text \<open>
  Claim C1. When the structured generation succeeds, the run ends with an image list as
  long as \<^verbatim>\<open>imagePrompts\<close>; entry i carries the id of prompt i; its prompt is the trimmed
  refinement, or the short prompt when the refinement of prompt i failed; its url is the
  rendered data url, or the failure placeholder when the rendering of entry i failed.
\<close>

theorem pipeline_one_image_per_prompt:
  assumes "generateStructured c detailedPrompt language = Inr websiteData"
  shows "let prompts = wd_imagePrompts websiteData;
             images = latestGeneratedImages
                        (snd (generateWebsite c detailedPrompt coreIdea language s))
         in length images = length prompts \<and>
            (\<forall>i < length prompts.
               img_id (images ! i) = ip_id (prompts ! i) \<and>
               img_prompt (images ! i) =
                 (case refinePrompt c coreIdea i (ip_prompt (prompts ! i)) of
                    None \<Rightarrow> ip_prompt (prompts ! i)
                  | Some text \<Rightarrow> trim text) \<and>
               img_url (images ! i) =
                 (case renderImage c i (img_prompt (images ! i)) of
                    None \<Rightarrow> failed_image_url
                  | Some bytes \<Rightarrow> data_url bytes))"
  unfolding Let_def generateWebsite_images[OF assms]
  by (auto simp: generateImages_length improve_length generateImages_nth improve_nth
           split: option.splits)

theorem pipeline_one_image_per_prompt_witness:
  "generateStructured demo_collaborators [] [] = Inr demo_website_data
   \<and> length (latestGeneratedImages (snd (generateWebsite demo_collaborators [] [] [] site_state))) = 2
   \<and> img_id (latestGeneratedImages (snd (generateWebsite demo_collaborators [] [] [] site_state)) ! 0)
       = js ''hero-image''
   \<and> img_prompt (latestGeneratedImages (snd (generateWebsite demo_collaborators [] [] [] site_state)) ! 0)
       = js ''fresh bread display''
   \<and> img_id (latestGeneratedImages (snd (generateWebsite demo_collaborators [] [] [] site_state)) ! 1)
       = js ''menu-image''
   \<and> img_url (latestGeneratedImages (snd (generateWebsite demo_collaborators [] [] [] site_state)) ! 1)
       = failed_image_url"
proof -
  have h: "generateStructured demo_collaborators [] [] = Inr demo_website_data"
    by (simp add: demo_collaborators_def)
  note t = pipeline_one_image_per_prompt[OF h, of "[]" site_state, unfolded Let_def]
  have p: "wd_imagePrompts demo_website_data =
      [\<lparr>ip_id = js ''hero-image'', ip_prompt = js ''fresh bread display''\<rparr>,
       \<lparr>ip_id = js ''menu-image'', ip_prompt = js ''pastry counter''\<rparr>]"
    by (simp add: demo_website_data_def)
  from t have len: "length (latestGeneratedImages
      (snd (generateWebsite demo_collaborators [] [] [] site_state))) = 2"
    by (simp add: p)
  from t[THEN conjunct2, rule_format, of 0]
  have i0: "img_id (latestGeneratedImages
        (snd (generateWebsite demo_collaborators [] [] [] site_state)) ! 0) = js ''hero-image''"
      "img_prompt (latestGeneratedImages
        (snd (generateWebsite demo_collaborators [] [] [] site_state)) ! 0)
        = js ''fresh bread display''"
    by (simp_all add: p demo_collaborators_def)
  from t[THEN conjunct2, rule_format, of 1]
  have i1: "img_id (latestGeneratedImages
        (snd (generateWebsite demo_collaborators [] [] [] site_state)) ! 1) = js ''menu-image''"
      "img_url (latestGeneratedImages
        (snd (generateWebsite demo_collaborators [] [] [] site_state)) ! 1) = failed_image_url"
    by (simp_all add: p demo_collaborators_def)
  from h len i0 i1 show ?thesis by blast
qed








text \<open>
  Claim C10. A prompt whose trimmed text has fewer than 15 code units (the empty text
  among them) is rejected: the handler shows one message and makes no request; the state
  changes only in that the loading indicator is hidden and the input form is shown, so
  images, favicon, history and editors are as before.
\<close>

theorem short_prompt_rejected:
  assumes "length (trim inputValue) < MIN_PROMPT_LENGTH"
  shows "\<exists>m. submitForm c inputValue language pageType imageCount selectedSections s =
           ([Alert m], s\<lparr>loadingHidden := True, inputSectionHidden := False\<rparr>)"
  using assms
  by (auto simp: submitForm_def Let_def showError_def setLoadingState_def MIN_PROMPT_LENGTH_def)

theorem short_prompt_rejected_witness:
  "length (trim (js ''  a bakery  '')) < MIN_PROMPT_LENGTH
   \<and> (\<exists>m. submitForm demo_collaborators (js ''  a bakery  '') [] [] [] [] site_state =
           ([Alert m], site_state\<lparr>loadingHidden := True, inputSectionHidden := False\<rparr>))"
proof -
  have h: "length (trim (js ''  a bakery  '')) < MIN_PROMPT_LENGTH"
    by (simp add: trim_def js_def is_whitespace_def MIN_PROMPT_LENGTH_def)
  from short_prompt_rejected[OF h] h show ?thesis by blast
qed

section \<open>Export and local store\<close>

text \<open>
  Claim C6. With an empty HTML editor or an empty image list the export click shows the
  message "generate a website first" and nothing else: no fetch, no download, and the
  state is returned as it was.
\<close>

theorem export_precondition:
  assumes "htmlEditor s = [] \<or> latestGeneratedImages s = []"
  shows "exportClick c s = ([Alert msg_generate_first], s)"
  using assms by (auto simp: exportClick_def Let_def)

theorem export_precondition_witness:
  "latestGeneratedImages (site_state\<lparr>latestGeneratedImages := []\<rparr>) = []
   \<and> exportClick demo_collaborators (site_state\<lparr>latestGeneratedImages := []\<rparr>)
       = ([Alert msg_generate_first], site_state\<lparr>latestGeneratedImages := []\<rparr>)"
proof -
  have "htmlEditor (site_state\<lparr>latestGeneratedImages := []\<rparr>) = []
      \<or> latestGeneratedImages (site_state\<lparr>latestGeneratedImages := []\<rparr>) = []"
    by simp
  from export_precondition[OF this] show ?thesis by simp
qed

text \<open>
  Claim C7, as amended. For a document whose markup is not empty and whose full record
  the store accepts at the first write, loading right after saving gives back the
  markup, the CSS, the image list and the favicon, leaves the history with the single
  snapshot of that markup and CSS at cursor 0, hides the input form and shows the
  result.
\<close>

theorem save_load_roundtrip:
  assumes "htmlEditor d \<noteq> []"
    and "setItem_ok c \<lparr>sd_html = htmlEditor d, sd_css = cssEditor d,
            sd_images = latestGeneratedImages d, sd_favicon = latestFavicon d,
            sd_timestamp = now\<rparr>"
  shows "let stored = localStorage (saveStateToLocalStorage c now d);
             s' = loadStateFromLocalStorage c (s0\<lparr>localStorage := stored\<rparr>)
         in htmlEditor s' = htmlEditor d \<and> cssEditor s' = cssEditor d \<and>
            latestGeneratedImages s' = latestGeneratedImages d \<and>
            latestFavicon s' = latestFavicon d \<and>
            history s' = [\<lparr>snap_html = htmlEditor d, snap_css = cssEditor d\<rparr>] \<and>
            historyIndex s' = 0 \<and>
            inputSectionHidden s' \<and> \<not> resultContainerHidden s'"
  using assms
  by (simp add: saveStateToLocalStorage_def loadStateFromLocalStorage_def Let_def
        pushHistoryState_def updateUndoRedoButtons_def updatePreview_def slice0_def)

theorem save_load_roundtrip_witness:
  "htmlEditor site_state \<noteq> []
   \<and> setItem_ok failing_collaborators
       \<lparr>sd_html = htmlEditor site_state, sd_css = cssEditor site_state,
        sd_images = latestGeneratedImages site_state, sd_favicon = latestFavicon site_state,
        sd_timestamp = 0\<rparr>
   \<and> latestGeneratedImages
       (loadStateFromLocalStorage failing_collaborators
          ((initial_state True None)
             \<lparr>localStorage := localStorage (saveStateToLocalStorage failing_collaborators 0 site_state)\<rparr>))
       = latestGeneratedImages site_state
   \<and> htmlEditor
       (loadStateFromLocalStorage failing_collaborators
          ((initial_state True None)
             \<lparr>localStorage := localStorage (saveStateToLocalStorage failing_collaborators 0 site_state)\<rparr>))
       = htmlEditor site_state"
proof -
  have h1: "htmlEditor site_state \<noteq> []"
    by (simp add: site_state_def js_def)
  have h2: "setItem_ok failing_collaborators
       \<lparr>sd_html = htmlEditor site_state, sd_css = cssEditor site_state,
        sd_images = latestGeneratedImages site_state, sd_favicon = latestFavicon site_state,
        sd_timestamp = 0\<rparr>"
    by (simp add: failing_collaborators_def)
  from save_load_roundtrip[OF h1 h2, of "initial_state True None", unfolded Let_def] h1 h2
  show ?thesis by blast
qed

text \<open>
  The claim as stated fails for a document whose markup the user has cleared: the save
  writes the record, and the load that follows it restores nothing.
\<close>

theorem cleared_markup_not_restored:
  "localStorage (saveStateToLocalStorage failing_collaborators 0 (site_state\<lparr>htmlEditor := []\<rparr>))
     \<noteq> None
   \<and> latestGeneratedImages
       (loadStateFromLocalStorage failing_collaborators
          ((initial_state True None)
             \<lparr>localStorage :=
                localStorage (saveStateToLocalStorage failing_collaborators 0
                   (site_state\<lparr>htmlEditor := []\<rparr>))\<rparr>))
     \<noteq> latestGeneratedImages (site_state\<lparr>htmlEditor := []\<rparr>)"
  by (simp add: saveStateToLocalStorage_def loadStateFromLocalStorage_def Let_def
        failing_collaborators_def site_state_def initial_state_def)

section \<open>The document tree\<close>

subsection \<open>Attribute lists\<close>

lemma map_of_put: "map_of (put k v a) k' = (if k' = k then Some v else map_of a k')"
  by (induction a) auto

lemma keys_put: "fst ` set (put k v a) = insert k (fst ` set a)"
proof -
  have "dom (map_of (put k v a)) = insert k (dom (map_of a))"
    by (auto simp: map_of_put dom_def)
  then show ?thesis by (simp add: dom_map_of_conv_image_fst)
qed

lemma put_put: "put k v (put k v' a) = put k v a"
  by (induction a) auto

lemma put_fixed_iff: "put k v a = a \<longleftrightarrow> map_of a k = Some v"
  by (induction a) auto

lemma keepsD: "keeps f P \<Longrightarrow> P t (f t a) = P t a"
  by (simp add: keeps_def)

subsection \<open>Induction over trees\<close>

text \<open>Nodes and lists of nodes together, with the selector fixed.\<close>

lemma node_nodes_induct:
  assumes "\<And>s. A (Text s)"
    and "\<And>t a cs. B cs \<Longrightarrow> A (Element t a cs)"
    and "B []"
    and "\<And>n ns. A n \<Longrightarrow> B ns \<Longrightarrow> B (n # ns)"
  shows "A n" and "B ns"
proof -
  have "A n \<and> B ns"
  proof -
    have "A n" and "B ns"
      by (induction "undefined :: selector" n and "undefined :: selector" ns rule: has_node_has_nodes.induct)
         (simp_all add: assms)
    then show ?thesis by simp
  qed
  then show "A n" and "B ns" by simp_all
qed

subsection \<open>Rewriting the first match\<close>

lemma has_update:
  assumes "keeps f Q"
  shows "has_node Q (update_node P f n) = has_node Q n"
    and "has_nodes Q (update_nodes P f ns) = has_nodes Q ns"
  by (induction n and ns rule: node_nodes_induct) (simp_all add: keepsD[OF assms])

lemma update_absent:
  shows "\<not> has_node P n \<Longrightarrow> update_node P f n = n"
    and "\<not> has_nodes P ns \<Longrightarrow> update_nodes P f ns = ns"
  by (induction n and ns rule: node_nodes_induct) simp_all

lemma update_absorb:
  assumes "keeps f P"
  shows "update_node P g (update_node P f n) = update_node P (\<lambda>t. g t \<circ> f t) n"
    and "update_nodes P g (update_nodes P f ns) = update_nodes P (\<lambda>t. g t \<circ> f t) ns"
  by (induction n and ns rule: node_nodes_induct)
     (simp_all add: keepsD[OF assms] has_update[OF assms])

lemma update_commute:
  assumes "keeps f P" "keeps f Q" "keeps g P" "keeps g Q"
    and "\<And>t a. \<not> (P t a \<and> Q t a)"
  shows "update_node P f (update_node Q g n) = update_node Q g (update_node P f n)"
    and "update_nodes P f (update_nodes Q g ns) = update_nodes Q g (update_nodes P f ns)"
  using assms(5)
  by (induction n and ns rule: node_nodes_induct)
     (auto simp: keepsD[OF assms(1)] keepsD[OF assms(2)] keepsD[OF assms(3)] keepsD[OF assms(4)]
        has_update[OF assms(2)] has_update[OF assms(3)])

lemma update_fixed:
  assumes "keeps f P" "keeps f Q" "keeps g P" "keeps g Q"
    and "\<And>t a. P t a \<Longrightarrow> Q t a \<Longrightarrow> f t a = a \<Longrightarrow> f t (g t a) = g t a"
  shows "update_node P f n = n \<Longrightarrow> update_node P f (update_node Q g n) = update_node Q g n"
    and "update_nodes P f ns = ns \<Longrightarrow> update_nodes P f (update_nodes Q g ns) = update_nodes Q g ns"
  using assms(5)
  by (induction n and ns rule: node_nodes_induct)
     (auto simp: keepsD[OF assms(1)] keepsD[OF assms(2)] keepsD[OF assms(3)] keepsD[OF assms(4)]
        has_update[OF assms(2)] has_update[OF assms(3)] update_absent)

lemma has_nodes_append: "has_nodes P (xs @ ys) = (has_nodes P xs \<or> has_nodes P ys)"
  by (induction xs) simp_all

lemma update_nodes_append:
  "update_nodes P f (xs @ ys) =
     (if has_nodes P xs then update_nodes P f xs @ ys else xs @ update_nodes P f ys)"
  by (induction xs) simp_all

subsection \<open>Documents as trees\<close>

text \<open>
  The queries on a document are the queries on its tree, so what holds for a rewrite of
  a node holds for a rewrite of a document.
\<close>

lemma has_texts: "\<not> has_nodes P (map Text xs)"
  by (induction xs) simp_all

lemma texts_then_element:
  "(map Text xs @ Element t a cs # ys = map Text xs' @ Element t' a' cs' # ys')
     = (xs = xs' \<and> t = t' \<and> a = a' \<and> cs = cs' \<and> ys = ys')"
proof (induction xs arbitrary: xs')
  case Nil
  show ?case by (cases xs') auto
next
  case (Cons x xs)
  show ?case by (cases xs') (auto simp: Cons.IH)
qed

lemma texts_inject: "(map Text xs = map Text xs') = (xs = xs')"
  by (simp add: inj_map_eq_map inj_on_def)

lemma doc_root_inject: "doc_root d = doc_root d' \<Longrightarrow> d = d'"
  by (cases d, cases d') (simp add: doc_root_def texts_then_element texts_inject)

lemma doc_has_root: "doc_has P d = has_node P (doc_root d)"
  by (simp add: doc_has_def doc_root_def has_nodes_append has_texts)

lemma doc_update_root: "doc_root (doc_update_first P f d) = update_node P f (doc_root d)"
  by (simp add: doc_update_first_def doc_root_def update_absent update_nodes_append
        has_nodes_append has_texts)

lemma doc_has_update:
  "keeps f Q \<Longrightarrow> doc_has Q (doc_update_first P f d) = doc_has Q d"
  by (simp add: doc_has_root doc_update_root has_update)

lemma doc_update_absent: "\<not> doc_has P d \<Longrightarrow> doc_update_first P f d = d"
  by (rule doc_root_inject) (simp add: doc_has_root doc_update_root update_absent)

lemma doc_update_absorb:
  "keeps f P \<Longrightarrow>
     doc_update_first P g (doc_update_first P f d) = doc_update_first P (\<lambda>t. g t \<circ> f t) d"
  by (rule doc_root_inject) (simp add: doc_update_root update_absorb)

lemma doc_update_commute:
  assumes "keeps f P" "keeps f Q" "keeps g P" "keeps g Q"
    and "\<And>t a. \<not> (P t a \<and> Q t a)"
  shows "doc_update_first P f (doc_update_first Q g d)
           = doc_update_first Q g (doc_update_first P f d)"
  by (rule doc_root_inject) (simp add: doc_update_root update_commute[OF assms])

lemma doc_update_fixed:
  assumes "keeps f P" "keeps f Q" "keeps g P" "keeps g Q"
    and "\<And>t a. P t a \<Longrightarrow> Q t a \<Longrightarrow> f t a = a \<Longrightarrow> f t (g t a) = g t a"
    and "doc_update_first P f d = d"
  shows "doc_update_first P f (doc_update_first Q g d) = doc_update_first Q g d"
proof (rule doc_root_inject)
  have "update_node P f (doc_root d) = doc_root d"
    using doc_update_root[of P f d] by (simp only: assms(6))
  then have "update_node P f (update_node Q g (doc_root d)) = update_node Q g (doc_root d)"
    using assms(1-5) by (rule update_fixed(1)[rotated 5])
  then show "doc_root (doc_update_first P f (doc_update_first Q g d))
          = doc_root (doc_update_first Q g d)"
    by (simp only: doc_update_root)
qed

subsection \<open>What the attribute writes leave alone\<close>

lemma getAttribute_setAttribute:
  "getAttribute k' (setAttribute k v a) = (if k' = k then Some v else getAttribute k' a)"
  by (simp add: getAttribute_def setAttribute_def map_of_put)

lemma keeps_by_id: "k \<noteq> js ''id'' \<Longrightarrow> keeps (\<lambda>t. setAttribute k v) (by_id i)"
  by (auto simp: keeps_def by_id_def getAttribute_setAttribute)

lemma keeps_link_icon: "k \<noteq> js ''rel'' \<Longrightarrow> keeps (\<lambda>t. setAttribute k v) sel_link_icon"
  by (auto simp: keeps_def sel_link_icon_def getAttribute_setAttribute)

lemma keeps_meta: "k \<noteq> js ''name'' \<Longrightarrow> keeps (\<lambda>t. setAttribute k v) (sel_meta n)"
  by (auto simp: keeps_def sel_meta_def getAttribute_setAttribute)

lemma keeps_style: "keeps f sel_style"
  by (simp add: keeps_def sel_style_def)

lemma attribute_names_differ:
  "js ''src'' \<noteq> js ''id''" "js ''href'' \<noteq> js ''id''" "js ''content'' \<noteq> js ''id''"
  "js ''src'' \<noteq> js ''rel''" "js ''href'' \<noteq> js ''rel''" "js ''content'' \<noteq> js ''rel''"
  "js ''src'' \<noteq> js ''name''" "js ''href'' \<noteq> js ''name''" "js ''content'' \<noteq> js ''name''"
  "js ''src'' \<noteq> js ''href''" "js ''src'' \<noteq> js ''content''" "js ''href'' \<noteq> js ''content''"
  by (simp_all add: js_def)

text \<open>The assignment to \<^verbatim>\<open>src\<close> writes that attribute or nothing.\<close>

lemma keeps_assign_src:
  "keeps (assign_src u) (by_id i)"
  "keeps (assign_src u) sel_link_icon"
  "keeps (assign_src u) (sel_meta n)"
  by (auto simp: keeps_def assign_src_def by_id_def sel_link_icon_def sel_meta_def
        getAttribute_setAttribute attribute_names_differ[symmetric])

lemmas keeps_simps =
  keeps_by_id[OF attribute_names_differ(2)] keeps_by_id[OF attribute_names_differ(3)]
  keeps_link_icon[OF attribute_names_differ(5)] keeps_link_icon[OF attribute_names_differ(6)]
  keeps_meta[OF attribute_names_differ(8)] keeps_meta[OF attribute_names_differ(9)]
  keeps_assign_src keeps_style

subsection \<open>Removing style elements\<close>

lemma nodes_induct [case_names Nil Text Element]:
  assumes "B []"
    and "\<And>s ns. B ns \<Longrightarrow> B (Text s # ns)"
    and "\<And>t a cs ns. B cs \<Longrightarrow> B ns \<Longrightarrow> B (Element t a cs # ns)"
  shows "B ns"
proof -
  have "(case n of Text s \<Rightarrow> True | Element t a cs \<Rightarrow> B cs)" and "B ns" for n
    by (induction n and ns rule: node_nodes_induct) (auto simp: assms split: node.splits)
  then show ?thesis by simp
qed

lemma sel_style_yes: "t = js ''style'' \<Longrightarrow> sel_style t a"
  by (simp add: sel_style_def)

lemma sel_style_no: "t \<noteq> js ''style'' \<Longrightarrow> \<not> sel_style t a"
  by (simp add: sel_style_def)

lemma no_element_no_match:
  shows "\<not> has_node (\<lambda>t a. True) n \<Longrightarrow> \<not> has_node P n"
    and "\<not> has_nodes (\<lambda>t a. True) ns \<Longrightarrow> \<not> has_nodes P ns"
  by (induction n and ns rule: node_nodes_induct) simp_all

text \<open>
  Where style elements hold text only, a selector that matches no style element finds
  after their removal what it found before, and a rewrite of its first match can be done
  before or after.
\<close>

lemma has_remove_all:
  assumes "misses_style P"
  shows "styles_hold_text ns \<Longrightarrow> has_nodes P (remove_all sel_style ns) = has_nodes P ns"
proof (induction ns rule: nodes_induct)
  case Nil
  show ?case by simp
next
  case (Text s ns)
  then show ?case by simp
next
  case (Element t a cs ns)
  from Element.prems have pn: "styles_hold_text ns" by simp
  show ?case
  proof (cases "t = js ''style''")
    case True
    then have s: "sel_style t a" by (rule sel_style_yes)
    from True Element.prems have "\<not> has_nodes P cs" by (simp add: no_element_no_match)
    moreover from True assms have "\<not> P t a" by (simp add: misses_style_def)
    ultimately show ?thesis using s Element.IH(2)[OF pn] by simp
  next
    case False
    then have s: "\<not> sel_style t a" by (rule sel_style_no)
    from False Element.prems have p: "styles_hold_text cs" by simp
    show ?thesis using s Element.IH(1)[OF p] Element.IH(2)[OF pn] by simp
  qed
qed

lemma update_remove_all:
  assumes "misses_style P"
  shows "styles_hold_text ns \<Longrightarrow>
     update_nodes P f (remove_all sel_style ns) = remove_all sel_style (update_nodes P f ns)"
proof (induction ns rule: nodes_induct)
  case Nil
  show ?case by simp
next
  case (Text s ns)
  then show ?case by simp
next
  case (Element t a cs ns)
  show ?case
  proof (cases "t = js ''style''")
    case True
    with Element.prems assms have "\<not> has_node P (Element t a cs)"
      by (simp add: misses_style_def no_element_no_match)
    with True Element show ?thesis by (simp add: sel_style_yes)
  next
    case False
    with Element.prems have p: "styles_hold_text cs" "styles_hold_text ns" by simp_all
    note ih = Element.IH(1)[OF p(1)] Element.IH(2)[OF p(2)]
    from False show ?thesis
      using ih has_remove_all[OF assms p(1)]
      by (simp add: sel_style_no update_absent)
  qed
qed

lemma has_style_update:
  "has_nodes sel_style (update_nodes P f ns) = has_nodes sel_style ns"
  by (rule has_update(2)[OF keeps_style])

lemma remove_all_none: "\<not> has_nodes P (remove_all P ns)"
  by (induction ns rule: nodes_induct) simp_all

lemma remove_all_absent: "\<not> has_nodes P ns \<Longrightarrow> remove_all P ns = ns"
  by (induction ns rule: nodes_induct) simp_all

lemma remove_all_last:
  "\<not> has_nodes P xs \<Longrightarrow> P t a \<Longrightarrow> remove_all P (xs @ [Element t a cs]) = xs"
  by (induction xs rule: nodes_induct) (simp_all add: remove_all_absent)

lemma remove_first_last:
  "\<not> has_nodes P xs \<Longrightarrow> P t a \<Longrightarrow> remove_first P (xs @ [Element t a cs]) = xs"
  by (induction xs rule: nodes_induct) simp_all

lemma first_nodes_absent:
  shows "\<not> has_node P n \<Longrightarrow> first_node P n = None"
    and "\<not> has_nodes P ns \<Longrightarrow> first_nodes P ns = None"
  by (induction n and ns rule: node_nodes_induct) simp_all

lemma first_nodes_last:
  "\<not> has_nodes P xs \<Longrightarrow> P t a \<Longrightarrow>
     first_nodes P (xs @ [Element t a cs]) = Some (Element t a cs)"
  by (induction xs) (simp_all add: first_nodes_absent)

subsection \<open>Appending to the head\<close>

lemma has_append_child: "doc_has P (head_appendChild n d) = (doc_has P d \<or> has_node P n)"
  by (auto simp: doc_has_def head_appendChild_def has_nodes_append)

lemma update_append_child:
  "\<not> has_node P n \<Longrightarrow>
     doc_update_first P f (head_appendChild n d) = head_appendChild n (doc_update_first P f d)"
  by (simp add: doc_update_first_def head_appendChild_def has_nodes_append update_nodes_append)

lemma update_created:
  "\<not> doc_has P d \<Longrightarrow> P t a \<Longrightarrow>
     doc_update_first P f (head_appendChild (Element t a cs) d)
       = head_appendChild (Element t (f t a) cs) d"
  by (simp add: doc_update_first_def doc_has_def head_appendChild_def has_nodes_append
        update_nodes_append)

lemma has_remove_head_styles:
  "misses_style P \<Longrightarrow> parsed_document d \<Longrightarrow> doc_has P (remove_head_styles d) = doc_has P d"
  by (simp add: doc_has_def remove_head_styles_def parsed_document_def has_remove_all)

lemma update_remove_head_styles:
  "misses_style P \<Longrightarrow> parsed_document d \<Longrightarrow>
     doc_update_first P f (remove_head_styles d) = remove_head_styles (doc_update_first P f d)"
  by (simp add: doc_update_first_def remove_head_styles_def parsed_document_def has_remove_all
        update_remove_all)

subsection \<open>Settled rewrites\<close>

text \<open>
  A rewrite that is settled stays settled under a rewrite of another element or of
  another attribute, under an append that adds no match, and under the removal of the
  style elements of the head.
\<close>

lemma settled_update:
  assumes "settled P f d"
    and "keeps f P" "keeps f Q" "keeps g P" "keeps g Q"
    and "\<And>t a. P t a \<Longrightarrow> Q t a \<Longrightarrow> f t a = a \<Longrightarrow> f t (g t a) = g t a"
  shows "settled P f (doc_update_first Q g d)"
proof -
  from assms(1) have h: "doc_has P d" and e: "doc_update_first P f d = d"
    by (simp_all add: settled_def)
  have "doc_update_first P f (doc_update_first Q g d) = doc_update_first Q g d"
    using assms(2-6) e by (rule doc_update_fixed)
  with h show ?thesis
    by (simp add: settled_def doc_has_update[OF assms(4)])
qed

lemma settled_append_child:
  "settled P f d \<Longrightarrow> \<not> has_node P n \<Longrightarrow> settled P f (head_appendChild n d)"
  by (simp add: settled_def has_append_child update_append_child)

lemma settled_remove_head_styles:
  "settled P f d \<Longrightarrow> misses_style P \<Longrightarrow> parsed_document d \<Longrightarrow>
     settled P f (remove_head_styles d)"
  by (simp add: settled_def has_remove_head_styles update_remove_head_styles)

lemma settled_after_update:
  "keeps f P \<Longrightarrow> (\<And>t a. f t (f t a) = f t a) \<Longrightarrow> doc_has P d \<Longrightarrow>
     settled P f (doc_update_first P f d)"
proof -
  assume k: "keeps f P" and i: "\<And>t a. f t (f t a) = f t a" and h: "doc_has P d"
  have "(\<lambda>t. f t \<circ> f t) = f" using i by (simp add: fun_eq_iff)
  with doc_update_absorb[OF k, of f d] h show ?thesis
    by (simp add: settled_def doc_has_update[OF k])
qed

lemma settled_after_create:
  "\<not> doc_has P d \<Longrightarrow> P t a \<Longrightarrow> f t a = a \<Longrightarrow> settled P f (head_appendChild (Element t a cs) d)"
  by (simp add: settled_def has_append_child update_created)

subsection \<open>Tags, names and selectors\<close>

lemma setAttribute_twice:
  "(\<lambda>t. setAttribute k v \<circ> setAttribute k v') = (\<lambda>t. setAttribute k v)"
  by (simp add: fun_eq_iff setAttribute_def put_put)

lemma assign_src_twice: "(\<lambda>t. assign_src u t \<circ> assign_src u' t) = assign_src u"
  by (simp add: fun_eq_iff assign_src_def setAttribute_def put_put)

lemma assign_src_fixed:
  "k \<noteq> js ''src'' \<Longrightarrow> assign_src u t a = a \<Longrightarrow>
     assign_src u t (setAttribute k v a) = setAttribute k v a"
  by (simp add: assign_src_def setAttribute_def put_fixed_iff map_of_put split: if_splits)

lemma setAttribute_idem: "setAttribute k v (setAttribute k v a) = setAttribute k v a"
  by (simp add: setAttribute_def put_put)

lemma setAttribute_fixed:
  "k \<noteq> k' \<Longrightarrow> setAttribute k v a = a \<Longrightarrow>
     setAttribute k v (setAttribute k' v' a) = setAttribute k' v' a"
  by (simp add: setAttribute_def put_fixed_iff map_of_put)

lemma setAttribute_fixed_src:
  "k \<noteq> js ''src'' \<Longrightarrow> setAttribute k v a = a \<Longrightarrow>
     setAttribute k v (assign_src u t a) = assign_src u t a"
  by (simp add: assign_src_def setAttribute_fixed)

lemmas attr_ne = attribute_names_differ attribute_names_differ[symmetric]

lemma by_id_disjoint: "i \<noteq> j \<Longrightarrow> \<not> (by_id i t a \<and> by_id j t a)"
  by (auto simp: by_id_def)

lemma tag_names_differ:
  "js ''style'' \<noteq> js ''meta''" "js ''style'' \<noteq> js ''link''" "js ''meta'' \<noteq> js ''link''"
  by (simp_all add: js_def)

lemma misses_style_meta: "misses_style (sel_meta n)"
  by (simp add: misses_style_def sel_meta_def tag_names_differ)

lemma misses_style_link_icon: "misses_style sel_link_icon"
  by (simp add: misses_style_def sel_link_icon_def tag_names_differ)

lemma meta_link_disjoint: "\<not> (sel_meta n t a \<and> sel_link_icon t a)"
  by (auto simp: sel_meta_def sel_link_icon_def tag_names_differ(3)[symmetric])

lemma meta_meta_disjoint: "n \<noteq> m \<Longrightarrow> \<not> (sel_meta n t a \<and> sel_meta m t a)"
  by (auto simp: sel_meta_def)

lemma style_element_unmatched:
  "\<not> has_node (by_id i) (style_element css)"
  "\<not> has_node sel_link_icon (style_element css)"
  "\<not> has_node (sel_meta n) (style_element css)"
  by (simp_all add: style_element_def by_id_def sel_link_icon_def sel_meta_def getAttribute_def
        tag_names_differ)


lemma style_element_text: "textContent (style_element css) = css"
  by (simp add: style_element_def)

subsection \<open>Injecting the images\<close>

text \<open>
  Two images of one id: the later write wins. Two images of different ids: the writes go
  to different elements and commute. So the loop over the images does what the loop over
  \<open>last_by_id\<close> of them does, and a second pass over that list changes nothing.
\<close>

lemma inject_image_absorb:
  "img_id a = img_id b \<Longrightarrow> inject_image a (inject_image b d) = inject_image a d"
  by (simp add: inject_image_def doc_update_absorb keeps_simps assign_src_twice)

lemma inject_image_commute:
  "img_id a \<noteq> img_id b \<Longrightarrow>
     inject_image a (inject_image b d) = inject_image b (inject_image a d)"
  unfolding inject_image_def
  by (rule doc_update_commute) (simp_all add: keeps_simps by_id_disjoint)

lemma fold_inject_absorb:
  "img_id a \<in> img_id ` set xs \<Longrightarrow>
     fold inject_image xs (inject_image a d) = fold inject_image xs d"
proof (induction xs arbitrary: d)
  case Nil
  then show ?case by simp
next
  case (Cons x xs)
  show ?case
  proof (cases "img_id x = img_id a")
    case True
    then show ?thesis by (simp add: inject_image_absorb)
  next
    case False
    with Cons.prems have "img_id a \<in> img_id ` set xs" by auto
    from Cons.IH[OF this, of "inject_image x d"] False show ?thesis
      by (simp add: inject_image_commute[of x a])
  qed
qed

lemma fold_last_by_id: "fold inject_image (last_by_id xs) d = fold inject_image xs d"
  by (induction xs arbitrary: d) (simp_all add: fold_inject_absorb)

lemma last_by_id_ids: "img_id ` set (last_by_id xs) = img_id ` set xs"
  by (induction xs) auto

lemma last_by_id_distinct: "distinct (map img_id (last_by_id xs))"
  by (induction xs) (auto simp: last_by_id_ids)

lemma inject_image_fixed_fold:
  "inject_image a e = e \<Longrightarrow> img_id a \<notin> img_id ` set ys \<Longrightarrow>
     inject_image a (fold inject_image ys e) = fold inject_image ys e"
proof (induction ys arbitrary: e)
  case Nil
  then show ?case by simp
next
  case (Cons y ys)
  from Cons.prems have ne: "img_id a \<noteq> img_id y" by auto
  have "inject_image a (inject_image y e) = inject_image y e"
    using inject_image_commute[OF ne, of e] Cons.prems(1) by simp
  from Cons.IH[OF this] Cons.prems(2) show ?case by simp
qed

lemma fold_inject_fixed:
  "distinct (map img_id xs) \<Longrightarrow> a \<in> set xs \<Longrightarrow>
     inject_image a (fold inject_image xs d) = fold inject_image xs d"
proof (induction xs arbitrary: d)
  case Nil
  then show ?case by simp
next
  case (Cons x xs)
  show ?case
  proof (cases "a = x")
    case True
    have "inject_image x (inject_image x d) = inject_image x d"
      by (simp add: inject_image_absorb)
    from inject_image_fixed_fold[OF this, of xs] Cons.prems(1) True show ?thesis by simp
  next
    case False
    with Cons.prems have "a \<in> set xs" "distinct (map img_id xs)" by auto
    from Cons.IH[OF this(2,1), of "inject_image x d"] show ?thesis by simp
  qed
qed

lemma fold_settled: "(\<forall>a \<in> set xs. inject_image a e = e) \<Longrightarrow> fold inject_image xs e = e"
  by (induction xs) simp_all

lemma inject_favicon_twice: "inject_favicon fav (inject_favicon fav d) = inject_favicon fav d"
  by (cases fav)
     (simp_all add: inject_favicon_def doc_update_absorb keeps_simps setAttribute_twice)

lemma inject_image_fixed_favicon:
  assumes "inject_image a e = e"
  shows "inject_image a (inject_favicon fav e) = inject_favicon fav e"
proof (cases fav)
  case None
  with assms show ?thesis by (simp add: inject_favicon_def)
next
  case (Some f)
  have "doc_update_first (by_id (img_id a)) (assign_src (img_url a))
          (doc_update_first sel_link_icon (\<lambda>t. setAttribute (js ''href'') (fav_url f)) e)
        = doc_update_first sel_link_icon (\<lambda>t. setAttribute (js ''href'') (fav_url f)) e"
    by (rule doc_update_fixed)
       (use assms in \<open>simp_all add: keeps_simps assign_src_fixed attr_ne inject_image_def\<close>)
  with Some show ?thesis by (simp add: inject_favicon_def inject_image_def)
qed

lemma inject_all_twice:
  "inject_favicon fav (fold inject_image xs (inject_favicon fav (fold inject_image xs d)))
     = inject_favicon fav (fold inject_image xs d)"
proof -
  let ?ds = "last_by_id xs"
  let ?z1 = "fold inject_image ?ds d"
  let ?z2 = "inject_favicon fav ?z1"
  have "\<forall>a \<in> set ?ds. inject_image a ?z1 = ?z1"
    by (simp add: fold_inject_fixed last_by_id_distinct)
  then have "\<forall>a \<in> set ?ds. inject_image a ?z2 = ?z2"
    by (simp add: inject_image_fixed_favicon)
  then have "fold inject_image ?ds ?z2 = ?z2"
    by (rule fold_settled)
  then show ?thesis
    by (simp add: fold_last_by_id inject_favicon_twice)
qed

subsection \<open>The preview on trees\<close>

lemma inject_assets_twice:
  "inject_assets fav xs (inject_assets fav xs d) = inject_assets fav xs d"
  by (simp add: inject_assets_def inject_all_twice)

lemma updatePreview_doc_alt:
  "updatePreview_doc css xs fav d
     = inject_assets fav xs (head_appendChild (style_element css) (remove_head_styles d))"
  by (simp add: updatePreview_doc_def inject_assets_def Let_def)

lemma inject_image_append_style:
  "inject_image a (head_appendChild (style_element css) d)
     = head_appendChild (style_element css) (inject_image a d)"
  by (simp add: inject_image_def update_append_child style_element_unmatched)

lemma fold_inject_append_style:
  "fold inject_image xs (head_appendChild (style_element css) d)
     = head_appendChild (style_element css) (fold inject_image xs d)"
  by (induction xs arbitrary: d) (simp_all add: inject_image_append_style)

lemma inject_favicon_append_style:
  "inject_favicon fav (head_appendChild (style_element css) d)
     = head_appendChild (style_element css) (inject_favicon fav d)"
  by (cases fav) (simp_all add: inject_favicon_def update_append_child style_element_unmatched)

lemma inject_assets_append_style:
  "inject_assets fav xs (head_appendChild (style_element css) d)
     = head_appendChild (style_element css) (inject_assets fav xs d)"
  by (simp add: inject_assets_def fold_inject_append_style inject_favicon_append_style)

lemma head_style_update:
  "has_nodes sel_style (head_nodes (doc_update_first P f d)) = has_nodes sel_style (head_nodes d)"
  by (simp add: doc_update_first_def has_style_update)

lemma head_style_fold:
  "has_nodes sel_style (head_nodes (fold inject_image xs d)) = has_nodes sel_style (head_nodes d)"
  by (induction xs arbitrary: d) (simp_all add: inject_image_def head_style_update)

lemma head_style_assets:
  "has_nodes sel_style (head_nodes (inject_assets fav xs d)) = has_nodes sel_style (head_nodes d)"
  by (cases fav) (simp_all add: inject_assets_def inject_favicon_def head_style_update head_style_fold)

lemma head_style_removed: "\<not> has_nodes sel_style (head_nodes (remove_head_styles d))"
  by (simp add: remove_head_styles_def remove_all_none)

lemma style_element_is_style: "sel_style (js ''style'') a"
  by (simp add: sel_style_def)

lemma remove_head_styles_appended:
  "\<not> has_nodes sel_style (head_nodes d) \<Longrightarrow>
     remove_head_styles (head_appendChild (style_element css) d) = d"
  by (simp add: remove_head_styles_def head_appendChild_def style_element_def remove_all_last
        style_element_is_style)

lemma first_style_appended:
  "\<not> has_nodes sel_style (head_nodes d) \<Longrightarrow>
     doc_first_style (head_appendChild (style_element css) d) = Some (style_element css)"
  by (simp add: doc_first_style_def head_appendChild_def style_element_def first_nodes_last
        style_element_is_style)

lemma remove_first_style_appended:
  "\<not> has_nodes sel_style (head_nodes d) \<Longrightarrow>
     doc_remove_first_style (head_appendChild (style_element css) d) = d"
  by (simp add: doc_remove_first_style_def head_appendChild_def style_element_def
        remove_first_last has_nodes_append style_element_is_style)

lemma remove_head_styles_absent:
  "\<not> has_nodes sel_style (head_nodes d) \<Longrightarrow> remove_head_styles d = d"
  by (simp add: remove_head_styles_def remove_all_absent)

lemma updatePreview_doc_shape:
  "updatePreview_doc css xs fav d
     = head_appendChild (style_element css) (inject_assets fav xs (remove_head_styles d))"
  by (simp add: updatePreview_doc_alt inject_assets_append_style)

lemma updatePreview_doc_settled:
  assumes "\<not> has_nodes sel_style (head_nodes y)" and "inject_assets fav xs y = y"
  shows "updatePreview_doc css xs fav y = head_appendChild (style_element css) y"
  using assms by (simp add: updatePreview_doc_shape remove_head_styles_absent)

lemma updatePreview_doc_twice:
  "updatePreview_doc css xs fav (updatePreview_doc css xs fav d) = updatePreview_doc css xs fav d"
proof -
  let ?y = "inject_assets fav xs (remove_head_styles d)"
  have n: "\<not> has_nodes sel_style (head_nodes ?y)"
    by (simp add: head_style_assets head_style_removed)
  have "updatePreview_doc css xs fav (head_appendChild (style_element css) ?y)
          = head_appendChild (style_element css) ?y"
    by (simp add: updatePreview_doc_shape remove_head_styles_appended[OF n] inject_assets_twice)
  then show ?thesis by (simp add: updatePreview_doc_shape)
qed

subsection \<open>The find-or-create steps\<close>

lemma created_meta:
  "sel_meta name (js ''meta'') [(js ''name'', name), (js ''content'', content)]"
  "setAttribute (js ''content'') content [(js ''name'', name), (js ''content'', content)]
     = [(js ''name'', name), (js ''content'', content)]"
  "m \<noteq> name \<Longrightarrow>
     \<not> has_node (sel_meta m) (Element (js ''meta'') [(js ''name'', name), (js ''content'', content)] [])"
  "\<not> has_node sel_link_icon (Element (js ''meta'') [(js ''name'', name), (js ''content'', content)] [])"
  by (simp_all add: sel_meta_def sel_link_icon_def getAttribute_def setAttribute_def
        attr_ne tag_names_differ tag_names_differ[symmetric])

lemma icon_includes: "js_includes (map ascii_lower (js ''icon'')) (js ''icon'')"
  by (simp add: js_def ascii_lower_def is_ascii_upper_def)

lemma created_link:
  "sel_link_icon (js ''link'')
     [(js ''rel'', js ''icon''), (js ''type'', js ''image/jpeg''), (js ''href'', u)]"
  "setAttribute (js ''href'') u
     [(js ''rel'', js ''icon''), (js ''type'', js ''image/jpeg''), (js ''href'', u)]
     = [(js ''rel'', js ''icon''), (js ''type'', js ''image/jpeg''), (js ''href'', u)]"
  "\<not> has_node (sel_meta m) (Element (js ''link'')
     [(js ''rel'', js ''icon''), (js ''type'', js ''image/jpeg''), (js ''href'', u)] [])"
proof -
  have ne: "js ''rel'' \<noteq> js ''href''" "js ''type'' \<noteq> js ''href''"
    by (simp_all add: js_def)
  show "sel_link_icon (js ''link'')
     [(js ''rel'', js ''icon''), (js ''type'', js ''image/jpeg''), (js ''href'', u)]"
    by (simp add: sel_link_icon_def getAttribute_def icon_includes)
  show "setAttribute (js ''href'') u
     [(js ''rel'', js ''icon''), (js ''type'', js ''image/jpeg''), (js ''href'', u)]
     = [(js ''rel'', js ''icon''), (js ''type'', js ''image/jpeg''), (js ''href'', u)]"
    by (simp add: setAttribute_def ne)
  show "\<not> has_node (sel_meta m) (Element (js ''link'')
     [(js ''rel'', js ''icon''), (js ''type'', js ''image/jpeg''), (js ''href'', u)] [])"
    by (simp add: sel_meta_def tag_names_differ[symmetric])
qed

text \<open>After a find-or-create step its element is there and carries the value.\<close>

lemma inject_meta_settles:
  "content \<noteq> [] \<Longrightarrow>
     settled (sel_meta name) (\<lambda>t. setAttribute (js ''content'') content)
       (inject_meta name content d)"
  by (simp add: inject_meta_def settled_after_update settled_after_create keeps_simps
        setAttribute_idem created_meta)

lemma inject_meta_fixed:
  "content = [] \<or> settled (sel_meta name) (\<lambda>t. setAttribute (js ''content'') content) d \<Longrightarrow>
     inject_meta name content d = d"
  by (auto simp: inject_meta_def settled_def)

lemma create_favicon_link_settles:
  "settled sel_link_icon (\<lambda>t. setAttribute (js ''href'') (fav_url f))
     (create_favicon_link (Some f) d)"
  by (simp add: create_favicon_link_def settled_after_update settled_after_create keeps_simps
        setAttribute_idem created_link)

lemma create_favicon_link_fixed:
  "fav = None \<or> settled sel_link_icon (\<lambda>t. setAttribute (js ''href'') (fav_url (the fav))) d \<Longrightarrow>
     create_favicon_link fav d = d"
  by (cases fav) (auto simp: create_favicon_link_def settled_def)

text \<open>The later steps leave the element of an earlier step as it is.\<close>

lemma settled_inject_meta_other:
  assumes "settled (sel_meta n) (\<lambda>t. setAttribute (js ''content'') c) d" and "m \<noteq> n"
  shows "settled (sel_meta n) (\<lambda>t. setAttribute (js ''content'') c) (inject_meta m c' d)"
proof -
  have "settled (sel_meta n) (\<lambda>t. setAttribute (js ''content'') c)
          (doc_update_first (sel_meta m) (\<lambda>t. setAttribute (js ''content'') c') d)"
    using assms meta_meta_disjoint[of n m]
    by (intro settled_update) (auto simp: keeps_simps)
  moreover have "settled (sel_meta n) (\<lambda>t. setAttribute (js ''content'') c)
      (head_appendChild (Element (js ''meta'') [(js ''name'', m), (js ''content'', c')] []) d)"
    using assms(1) by (rule settled_append_child) (rule created_meta(3), use assms(2) in simp)
  ultimately show ?thesis
    using assms(1) by (simp add: inject_meta_def)
qed

lemma settled_meta_create_favicon_link:
  assumes "settled (sel_meta n) (\<lambda>t. setAttribute (js ''content'') c) d"
  shows "settled (sel_meta n) (\<lambda>t. setAttribute (js ''content'') c) (create_favicon_link fav d)"
proof (cases fav)
  case None
  with assms show ?thesis by (simp add: create_favicon_link_def)
next
  case (Some f)
  have "settled (sel_meta n) (\<lambda>t. setAttribute (js ''content'') c)
          (doc_update_first sel_link_icon (\<lambda>t. setAttribute (js ''href'') (fav_url f)) d)"
    using assms meta_link_disjoint[of n]
    by (intro settled_update) (auto simp: keeps_simps)
  moreover have "settled (sel_meta n) (\<lambda>t. setAttribute (js ''content'') c)
      (head_appendChild (Element (js ''link'')
         [(js ''rel'', js ''icon''), (js ''type'', js ''image/jpeg''),
          (js ''href'', fav_url f)] []) d)"
    using assms by (rule settled_append_child) (rule created_link(3))
  ultimately show ?thesis
    using Some by (simp add: create_favicon_link_def)
qed

lemma populate_head_twice:
  "populate_head md mk fav (populate_head md mk fav d) = populate_head md mk fav d"
proof -
  define d1 where "d1 = inject_meta (js ''description'') md d"
  define d2 where "d2 = inject_meta (js ''keywords'') mk d1"
  define d3 where "d3 = create_favicon_link fav d2"
  have d3: "populate_head md mk fav d = d3"
    by (simp add: populate_head_def Let_def d1_def d2_def d3_def)
  have kw: "js ''keywords'' \<noteq> js ''description''"
    by (simp add: js_def)
  have m1: "inject_meta (js ''description'') md d3 = d3"
  proof (cases "md = []")
    case True
    then show ?thesis by (simp add: inject_meta_fixed)
  next
    case False
    then have "settled (sel_meta (js ''description'')) (\<lambda>t. setAttribute (js ''content'') md) d1"
      by (simp add: d1_def inject_meta_settles)
    then have "settled (sel_meta (js ''description'')) (\<lambda>t. setAttribute (js ''content'') md) d3"
      by (simp add: d3_def d2_def settled_inject_meta_other settled_meta_create_favicon_link kw)
    then show ?thesis by (simp add: inject_meta_fixed)
  qed
  have m2: "inject_meta (js ''keywords'') mk d3 = d3"
  proof (cases "mk = []")
    case True
    then show ?thesis by (simp add: inject_meta_fixed)
  next
    case False
    then have "settled (sel_meta (js ''keywords'')) (\<lambda>t. setAttribute (js ''content'') mk) d2"
      by (simp add: d2_def inject_meta_settles)
    then have "settled (sel_meta (js ''keywords'')) (\<lambda>t. setAttribute (js ''content'') mk) d3"
      by (simp add: d3_def settled_meta_create_favicon_link)
    then show ?thesis by (simp add: inject_meta_fixed)
  qed
  have m3: "create_favicon_link fav d3 = d3"
  proof (cases fav)
    case None
    then show ?thesis by (simp add: create_favicon_link_fixed)
  next
    case (Some f)
    then have "settled sel_link_icon (\<lambda>t. setAttribute (js ''href'') (fav_url f)) d3"
      by (simp add: d3_def create_favicon_link_settles)
    with Some show ?thesis by (simp add: create_favicon_link_fixed)
  qed
  have "populate_head md mk fav d3 = d3"
    by (simp add: populate_head_def Let_def m1 m2 m3)
  then show ?thesis by (simp add: d3)
qed

subsection \<open>The head elements in the preview\<close>

text \<open>
  The element of a find-or-create step stays as it is through \<^verbatim>\<open>updatePreview\<close>, which
  writes other attributes, or the same value.
\<close>

lemma settled_inject_image:
  assumes "settled P (\<lambda>t. setAttribute k v) d"
    and "k \<noteq> js ''src''" "k \<noteq> js ''id''"
    and "keeps (\<lambda>t. setAttribute k v) P" "keeps (assign_src (img_url a)) P"
  shows "settled P (\<lambda>t. setAttribute k v) (inject_image a d)"
  unfolding inject_image_def
  using assms
  by (intro settled_update) (simp_all add: keeps_by_id setAttribute_fixed_src keeps_simps)

lemma settled_fold_inject:
  assumes "k \<noteq> js ''src''" "k \<noteq> js ''id''"
    and "keeps (\<lambda>t. setAttribute k v) P" "\<And>u. keeps (assign_src u) P"
  shows "settled P (\<lambda>t. setAttribute k v) d \<Longrightarrow>
           settled P (\<lambda>t. setAttribute k v) (fold inject_image xs d)"
  by (induction xs arbitrary: d) (simp_all add: settled_inject_image assms)

lemma settled_inject_favicon:
  assumes "settled P (\<lambda>t. setAttribute k v) d"
    and "k \<noteq> js ''href''" "k \<noteq> js ''rel''"
    and "keeps (\<lambda>t. setAttribute k v) P" "\<And>u. keeps (\<lambda>t. setAttribute (js ''href'') u) P"
  shows "settled P (\<lambda>t. setAttribute k v) (inject_favicon fav d)"
proof (cases fav)
  case None
  with assms(1) show ?thesis by (simp add: inject_favicon_def)
next
  case (Some f)
  have "settled P (\<lambda>t. setAttribute k v)
          (doc_update_first sel_link_icon (\<lambda>t. setAttribute (js ''href'') (fav_url f)) d)"
    using assms
    by (intro settled_update) (simp_all add: keeps_link_icon setAttribute_fixed keeps_simps)
  with Some show ?thesis by (simp add: inject_favicon_def)
qed

lemma settled_favicon_again:
  "settled sel_link_icon (\<lambda>t. setAttribute (js ''href'') (fav_url f)) d \<Longrightarrow>
     settled sel_link_icon (\<lambda>t. setAttribute (js ''href'') (fav_url f))
       (inject_favicon (Some f) d)"
  by (simp add: inject_favicon_def settled_def)

lemma settled_updatePreview_doc:
  assumes s: "settled P (\<lambda>t. setAttribute k v) d" and p: "parsed_document d"
    and ms: "misses_style P"
    and k: "k \<noteq> js ''src''" "k \<noteq> js ''id''" "k \<noteq> js ''rel''"
    and kp: "keeps (\<lambda>t. setAttribute k v) P" "\<And>u. keeps (assign_src u) P"
    and fv: "k \<noteq> js ''href'' \<and> (\<forall>u. keeps (\<lambda>t. setAttribute (js ''href'') u) P)
             \<or> (\<exists>f. fav = Some f \<and> P = sel_link_icon \<and> k = js ''href'' \<and> v = fav_url f)"
    and un: "\<not> has_node P (style_element css)"
  shows "settled P (\<lambda>t. setAttribute k v) (updatePreview_doc css xs fav d)"
proof -
  let ?d1 = "remove_head_styles d"
  have "settled P (\<lambda>t. setAttribute k v) ?d1"
    using s ms p by (rule settled_remove_head_styles)
  then have f: "settled P (\<lambda>t. setAttribute k v) (fold inject_image xs ?d1)"
    using k kp by (intro settled_fold_inject) simp_all
  have "settled P (\<lambda>t. setAttribute k v) (inject_favicon fav (fold inject_image xs ?d1))"
    using fv
  proof
    assume "k \<noteq> js ''href'' \<and> (\<forall>u. keeps (\<lambda>t. setAttribute (js ''href'') u) P)"
    with f k kp show ?thesis by (intro settled_inject_favicon) simp_all
  next
    assume "\<exists>f. fav = Some f \<and> P = sel_link_icon \<and> k = js ''href'' \<and> v = fav_url f"
    with f show ?thesis by (auto simp: settled_favicon_again)
  qed
  then have "settled P (\<lambda>t. setAttribute k v)
      (head_appendChild (style_element css) (inject_assets fav xs ?d1))"
    using un by (simp add: settled_append_child inject_assets_def)
  then show ?thesis by (simp add: updatePreview_doc_shape)
qed

text \<open>
  A document that \<open>populate_head\<close> leaves as it is has the three elements in place, as far
  as their values are given.
\<close>

lemma populate_head_fixed:
  assumes "populate_head md mk fav e = e"
  shows "md \<noteq> [] \<Longrightarrow>
           settled (sel_meta (js ''description'')) (\<lambda>t. setAttribute (js ''content'') md) e"
    and "mk \<noteq> [] \<Longrightarrow>
           settled (sel_meta (js ''keywords'')) (\<lambda>t. setAttribute (js ''content'') mk) e"
    and "fav = Some f \<Longrightarrow>
           settled sel_link_icon (\<lambda>t. setAttribute (js ''href'') (fav_url f)) e"
proof -
  define d1 where "d1 = inject_meta (js ''description'') md e"
  define d2 where "d2 = inject_meta (js ''keywords'') mk d1"
  have e: "e = create_favicon_link fav d2"
    using assms by (simp add: populate_head_def Let_def d1_def d2_def)
  have kw: "js ''keywords'' \<noteq> js ''description''"
    by (simp add: js_def)
  show "settled (sel_meta (js ''description'')) (\<lambda>t. setAttribute (js ''content'') md) e"
    if "md \<noteq> []"
  proof -
    from that
    have "settled (sel_meta (js ''description'')) (\<lambda>t. setAttribute (js ''content'') md) d1"
      by (simp add: d1_def inject_meta_settles)
    then have "settled (sel_meta (js ''description'')) (\<lambda>t. setAttribute (js ''content'') md)
        (create_favicon_link fav d2)"
      by (simp add: d2_def settled_inject_meta_other settled_meta_create_favicon_link kw)
    then show ?thesis by (simp add: e[symmetric])
  qed
  show "settled (sel_meta (js ''keywords'')) (\<lambda>t. setAttribute (js ''content'') mk) e"
    if "mk \<noteq> []"
  proof -
    from that
    have "settled (sel_meta (js ''keywords'')) (\<lambda>t. setAttribute (js ''content'') mk) d2"
      by (simp add: d2_def inject_meta_settles)
    then have "settled (sel_meta (js ''keywords'')) (\<lambda>t. setAttribute (js ''content'') mk)
        (create_favicon_link fav d2)"
      by (simp add: settled_meta_create_favicon_link)
    then show ?thesis by (simp add: e[symmetric])
  qed
  show "settled sel_link_icon (\<lambda>t. setAttribute (js ''href'') (fav_url f)) e"
    if "fav = Some f"
    unfolding e that by (rule create_favicon_link_settles)
qed

text \<open>
  So \<^verbatim>\<open>populateUI\<close>, given the preview of such a document, finds its three elements and
  the style element of the preview, and hands on the preview without that element,
  which \<^verbatim>\<open>updatePreview\<close> then appends again.
\<close>

lemma populateUI_doc_of_preview:
  assumes h: "populate_head md mk fav e = e" and p: "parsed_document e"
  shows "populateUI_doc md mk fav (updatePreview_doc css xs fav e)
           = (inject_assets fav xs (remove_head_styles e), css)"
    and "updatePreview_doc css xs fav (inject_assets fav xs (remove_head_styles e))
           = updatePreview_doc css xs fav e"
proof -
  define y where "y = inject_assets fav xs (remove_head_styles e)"
  define r where "r = updatePreview_doc css xs fav e"
  have ry: "r = head_appendChild (style_element css) y"
    by (simp add: r_def y_def updatePreview_doc_shape)
  have ny: "\<not> has_nodes sel_style (head_nodes y)"
    by (simp add: y_def head_style_assets head_style_removed)
  have yy: "inject_assets fav xs y = y"
    by (simp add: y_def inject_assets_twice)
  have m1: "inject_meta (js ''description'') md r = r"
  proof (cases "md = []")
    case True
    then show ?thesis by (simp add: inject_meta_fixed)
  next
    case False
    from populate_head_fixed(1)[OF h False]
    have "settled (sel_meta (js ''description'')) (\<lambda>t. setAttribute (js ''content'') md) r"
      unfolding r_def using p
      by (rule settled_updatePreview_doc)
         (simp_all add: misses_style_meta attr_ne keeps_simps style_element_unmatched)
    then show ?thesis by (simp add: inject_meta_fixed)
  qed
  have m2: "inject_meta (js ''keywords'') mk r = r"
  proof (cases "mk = []")
    case True
    then show ?thesis by (simp add: inject_meta_fixed)
  next
    case False
    from populate_head_fixed(2)[OF h False]
    have "settled (sel_meta (js ''keywords'')) (\<lambda>t. setAttribute (js ''content'') mk) r"
      unfolding r_def using p
      by (rule settled_updatePreview_doc)
         (simp_all add: misses_style_meta attr_ne keeps_simps style_element_unmatched)
    then show ?thesis by (simp add: inject_meta_fixed)
  qed
  have m3: "create_favicon_link fav r = r"
  proof (cases fav)
    case None
    then show ?thesis by (simp add: create_favicon_link_fixed)
  next
    case (Some f)
    from populate_head_fixed(3)[OF h Some]
    have "settled sel_link_icon (\<lambda>t. setAttribute (js ''href'') (fav_url f)) r"
      unfolding r_def using p
      by (rule settled_updatePreview_doc)
         (simp_all add: misses_style_link_icon attr_ne keeps_simps style_element_unmatched Some)
    with Some show ?thesis by (simp add: create_favicon_link_fixed)
  qed
  have "populate_head md mk fav r = r"
    by (simp add: populate_head_def Let_def m1 m2 m3)
  then have "populateUI_doc md mk fav r = (y, css)"
    by (simp add: populateUI_doc_def Let_def)
       (simp add: ry first_style_appended[OF ny] remove_first_style_appended[OF ny]
          style_element_text)
  then show "populateUI_doc md mk fav (updatePreview_doc css xs fav e)
           = (inject_assets fav xs (remove_head_styles e), css)"
    by (simp add: r_def y_def)
  have "updatePreview_doc css xs fav y = r"
    using ny yy by (simp add: ry updatePreview_doc_settled)
  then show "updatePreview_doc css xs fav (inject_assets fav xs (remove_head_styles e))
           = updatePreview_doc css xs fav e"
    by (simp add: r_def y_def)
qed

section \<open>Export of the images\<close>

lemma export_images_skips:
  "export_images c images (doc, folder) =
     export_images c (filter (\<lambda>im. doc_has (by_id (img_id im)) doc) images) (doc, folder)"
proof (induction images arbitrary: doc folder)
  case Nil
  show ?case by simp
next
  case (Cons im ims)
  show ?case
  proof (cases "doc_has (by_id (img_id im)) doc")
    case False
    with Cons.IH[of doc folder] show ?thesis by simp
  next
    case True
    define doc' where "doc' = doc_update_first (by_id (img_id im))
       (assign_src (js ''images/'' @ image_filename (img_id im))) doc"
    have same: "(\<lambda>im. doc_has (by_id (img_id im)) doc') = (\<lambda>im. doc_has (by_id (img_id im)) doc)"
      by (simp add: doc'_def doc_has_update keeps_simps)
    show ?thesis
    proof (cases "fetch_blob c (img_url im)")
      case None
      with True show ?thesis by (simp add: Let_def)
    next
      case (Some blob)
      from Cons.IH[of doc' "put (image_filename (img_id im)) blob folder"] True Some
      show ?thesis by (simp add: Let_def doc'_def[symmetric] same)
    qed
  qed
qed

lemma export_images_all:
  assumes "\<forall>im \<in> set images. doc_has (by_id (img_id im)) doc \<and> fetch_blob c (img_url im) \<noteq> None"
  shows "\<exists>doc' folder'. export_images c images (doc, folder)
            = (map (\<lambda>im. Fetch (img_url im)) images, Some (doc', folder'))
          \<and> fst ` set folder \<union> (\<lambda>im. image_filename (img_id im)) ` set images \<subseteq> fst ` set folder'
          \<and> (\<forall>i. doc_has (by_id i) doc' = doc_has (by_id i) doc)"
  using assms
proof (induction images arbitrary: doc folder)
  case Nil
  show ?case by simp
next
  case (Cons im ims)
  define doc1 where "doc1 = doc_update_first (by_id (img_id im))
       (assign_src (js ''images/'' @ image_filename (img_id im))) doc"
  from Cons.prems obtain blob where blob: "fetch_blob c (img_url im) = Some blob" by auto
  define folder1 where "folder1 = put (image_filename (img_id im)) blob folder"
  have same: "\<And>i. doc_has (by_id i) doc1 = doc_has (by_id i) doc"
    by (simp add: doc1_def doc_has_update keeps_simps)
  have "\<forall>im \<in> set ims. doc_has (by_id (img_id im)) doc1 \<and> fetch_blob c (img_url im) \<noteq> None"
    using Cons.prems by (simp add: same)
  from Cons.IH[OF this, of folder1] obtain doc' folder' where
    r: "export_images c ims (doc1, folder1) = (map (\<lambda>im. Fetch (img_url im)) ims, Some (doc', folder'))"
    and f: "fst ` set folder1 \<union> (\<lambda>im. image_filename (img_id im)) ` set ims \<subseteq> fst ` set folder'"
    and h: "\<forall>i. doc_has (by_id i) doc' = doc_has (by_id i) doc1"
    by blast
  have keys: "fst ` set folder1 = insert (image_filename (img_id im)) (fst ` set folder)"
    unfolding folder1_def by (rule keys_put)
  have "export_images c (im # ims) (doc, folder)
          = (map (\<lambda>im. Fetch (img_url im)) (im # ims), Some (doc', folder'))"
    using Cons.prems blob r by (simp add: Let_def doc1_def[symmetric] folder1_def[symmetric])
  moreover have "fst ` set folder \<union> (\<lambda>im. image_filename (img_id im)) ` set (im # ims) \<subseteq> fst ` set folder'"
    using f keys by auto
  ultimately show ?case using h same by auto
qed

text \<open>
  Claim C9. The export loop treats an image whose id no element of the document carries
  as if it were not in the list: the result with the full list is the result with the
  matched images alone, so such an image causes no fetch, no file and no failure. When
  every fetch of a matched image succeeds, the loop ends well, the fetches are those of
  the matched images in order, and the folder holds a file under the name of each matched
  image.
\<close>

theorem export_skips_unmatched:
  "export_images c images (doc, folder) =
     export_images c (filter (\<lambda>im. doc_has (by_id (img_id im)) doc) images) (doc, folder)
   \<and> ((\<forall>im \<in> set images. doc_has (by_id (img_id im)) doc \<longrightarrow> fetch_blob c (img_url im) \<noteq> None) \<longrightarrow>
      (\<exists>doc' folder'.
         export_images c images (doc, folder)
           = (map (\<lambda>im. Fetch (img_url im)) (filter (\<lambda>im. doc_has (by_id (img_id im)) doc) images),
              Some (doc', folder'))
         \<and> (\<forall>im \<in> set images. doc_has (by_id (img_id im)) doc \<longrightarrow>
               image_filename (img_id im) \<in> fst ` set folder')))"
proof (intro conjI impI)
  show "export_images c images (doc, folder) =
     export_images c (filter (\<lambda>im. doc_has (by_id (img_id im)) doc) images) (doc, folder)"
    by (rule export_images_skips)
next
  assume a: "\<forall>im \<in> set images. doc_has (by_id (img_id im)) doc \<longrightarrow> fetch_blob c (img_url im) \<noteq> None"
  let ?m = "filter (\<lambda>im. doc_has (by_id (img_id im)) doc) images"
  have "\<forall>im \<in> set ?m. doc_has (by_id (img_id im)) doc \<and> fetch_blob c (img_url im) \<noteq> None"
    using a by simp
  from export_images_all[OF this, of folder] obtain doc' folder' where
    "export_images c ?m (doc, folder) = (map (\<lambda>im. Fetch (img_url im)) ?m, Some (doc', folder'))"
    "fst ` set folder \<union> (\<lambda>im. image_filename (img_id im)) ` set ?m \<subseteq> fst ` set folder'"
    by blast
  then show "\<exists>doc' folder'.
         export_images c images (doc, folder)
           = (map (\<lambda>im. Fetch (img_url im)) ?m, Some (doc', folder'))
         \<and> (\<forall>im \<in> set images. doc_has (by_id (img_id im)) doc \<longrightarrow>
               image_filename (img_id im) \<in> fst ` set folder')"
    using export_images_skips[of c images doc folder] by auto
qed

theorem export_skips_unmatched_witness:
  "doc_has (by_id (js ''hero-image'')) demo_document
   \<and> \<not> doc_has (by_id (js ''gone-image'')) demo_document
   \<and> fetch_blob demo_collaborators (data_url (js ''AAAA'')) \<noteq> None
   \<and> export_images demo_collaborators demo_images (demo_document, [])
       = ([Fetch (data_url (js ''AAAA''))],
          Some (demo_exported, [(js ''hero_image.jpeg'', data_url (js ''AAAA''))]))
   \<and> image_filename (js ''hero-image'') \<in> {js ''hero_image.jpeg''}"
proof -
  have m: "doc_has (by_id (js ''hero-image'')) demo_document"
    "\<not> doc_has (by_id (js ''gone-image'')) demo_document"
    by code_simp+
  have f: "filter (\<lambda>im. doc_has (by_id (img_id im)) demo_document) demo_images
             = [\<lparr>img_id = js ''hero-image'', img_url = data_url (js ''AAAA''),
                 img_prompt = js ''fresh bread display''\<rparr>]"
    using m by (simp add: demo_images_def)
  have e: "export_images demo_collaborators
             [\<lparr>img_id = js ''hero-image'', img_url = data_url (js ''AAAA''),
               img_prompt = js ''fresh bread display''\<rparr>] (demo_document, [])
           = ([Fetch (data_url (js ''AAAA''))],
              Some (demo_exported, [(js ''hero_image.jpeg'', data_url (js ''AAAA''))]))"
    by code_simp
  have g: "fetch_blob demo_collaborators (data_url (js ''AAAA'')) \<noteq> None"
    by (simp add: demo_collaborators_def failing_collaborators_def)
  have h: "\<forall>im \<in> set demo_images.
             doc_has (by_id (img_id im)) demo_document \<longrightarrow>
             fetch_blob demo_collaborators (img_url im) \<noteq> None"
    by (simp add: demo_collaborators_def failing_collaborators_def)
  note t1 = export_skips_unmatched[of demo_collaborators demo_images demo_document "[]",
      THEN conjunct1, unfolded f e]
  from export_skips_unmatched[of demo_collaborators demo_images demo_document "[]",
      THEN conjunct2, THEN mp, OF h]
  obtain doc' folder' where
    "export_images demo_collaborators demo_images (demo_document, [])
       = (map (\<lambda>im. Fetch (img_url im))
            (filter (\<lambda>im. doc_has (by_id (img_id im)) demo_document) demo_images),
          Some (doc', folder'))"
    and k: "\<forall>im \<in> set demo_images. doc_has (by_id (img_id im)) demo_document \<longrightarrow>
               image_filename (img_id im) \<in> fst ` set folder'"
    by blast
  with t1 have "folder' = [(js ''hero_image.jpeg'', data_url (js ''AAAA''))]"
    by simp
  with k m(1) have "image_filename (js ''hero-image'') \<in> {js ''hero_image.jpeg''}"
    by (simp add: demo_images_def)
  with m g t1 show ?thesis by (simp only: simp_thms)
qed

section \<open>Placeholder resolution\<close>

subsection \<open>From trees to markup\<close>

lemma updatePreview_srcdoc:
  "previewSrcdoc (updatePreview c html css s) =
     outerHTML c (updatePreview_doc css (latestGeneratedImages s) (latestFavicon s)
       (parseFromString c html))"
  by (simp add: updatePreview_def)

lemma updatePreview_markup_twice:
  assumes "reads_back c (updatePreview_doc css (latestGeneratedImages s) (latestFavicon s)
             (parseFromString c html))"
  shows "previewSrcdoc (updatePreview c (previewSrcdoc (updatePreview c html css s)) css s)
           = previewSrcdoc (updatePreview c html css s)"
  using assms by (simp add: updatePreview_srcdoc reads_back_def updatePreview_doc_twice)

lemma populateUI_srcdoc:
  "previewSrcdoc (populateUI c m images md mk s) =
     outerHTML c
       (updatePreview_doc (cssEditor (populateUI c m images md mk s)) images (latestFavicon s)
          (parseFromString c (htmlEditor (populateUI c m images md mk s))))"
  by (simp add: populateUI_def Let_def split_def resetHistory_def updatePreview_def
        pushHistoryState_def updateUndoRedoButtons_def)

lemma populateUI_editors:
  "htmlEditor (populateUI c m images md mk s)
     = outerHTML c (fst (populateUI_doc md mk (latestFavicon s) (parseFromString c m)))"
  "cssEditor (populateUI c m images md mk s)
     = snd (populateUI_doc md mk (latestFavicon s) (parseFromString c m))"
  by (simp_all add: populateUI_def Let_def split_def resetHistory_def updatePreview_def
        pushHistoryState_def updateUndoRedoButtons_def)

text \<open>
  \<^verbatim>\<open>populateUI\<close> given the preview it published. The hypotheses are about the browser:
  \<open>e\<close> is the tree its parser builds from the markup in the HTML editor, and \<open>r\<close> the
  preview of \<open>e\<close>.
\<close>

lemma populateUI_markup_twice:
  fixes c m images md mk s
  defines "s1 \<equiv> populateUI c m images md mk s"
  defines "e \<equiv> parseFromString c (htmlEditor s1)"
  defines "r \<equiv> updatePreview_doc (cssEditor s1) images (latestFavicon s) e"
  assumes h: "populate_head md mk (latestFavicon s) e = e"
    and p: "parsed_document e"
    and r1: "reads_back c r"
    and r2: "reads_back c (fst (populateUI_doc md mk (latestFavicon s) r))"
  shows "previewSrcdoc (populateUI c (previewSrcdoc s1) images md mk s) = previewSrcdoc s1"
proof -
  let ?css = "cssEditor s1"
  let ?y = "inject_assets (latestFavicon s) images (remove_head_styles e)"
  have o1: "previewSrcdoc s1 = outerHTML c r"
    by (simp add: s1_def r_def e_def populateUI_srcdoc)
  have rb: "parseFromString c (outerHTML c r) = r"
    using r1 by (simp add: reads_back_def)
  have pd: "populateUI_doc md mk (latestFavicon s) r = (?y, ?css)"
    unfolding r_def using h p by (rule populateUI_doc_of_preview(1))
  have yb: "parseFromString c (outerHTML c ?y) = ?y"
    using r2 by (simp add: reads_back_def pd)
  have up: "updatePreview_doc ?css images (latestFavicon s) ?y = r"
    unfolding r_def using h p by (rule populateUI_doc_of_preview(2))
  have "previewSrcdoc (populateUI c (outerHTML c r) images md mk s) = outerHTML c r"
    by (simp add: populateUI_srcdoc populateUI_editors rb pd yb up)
  then show ?thesis by (simp add: o1)
qed

subsection \<open>The example pages\<close>

lemma demo_reads_back:
  "reads_back demo_browser (demo_page False True True)"
  "reads_back demo_browser (demo_page True False False)"
  "reads_back demo_browser (demo_page True True True)"
  "reads_back demo_browser (demo_page True False True)"
  by (simp_all add: reads_back_def demo_browser_def table_browser_def failing_collaborators_def
        demo_page_def demo_markup_def empty_document_def js_def data_url_def)

lemma demo_parse:
  "parseFromString demo_browser demo_start = demo_document"
  "parseFromString demo_browser (demo_markup True False False) = demo_page True False False"
  by (simp_all add: demo_browser_def table_browser_def demo_start_def demo_markup_def
        demo_page_def demo_document_def js_def)

lemma demo_write:
  "outerHTML demo_browser (demo_page True False False) = demo_markup True False False"
  "outerHTML demo_browser (demo_page True True True) = demo_markup True True True"
  by (simp_all add: demo_browser_def table_browser_def demo_page_def empty_document_def
        js_def data_url_def)

lemma demo_previewed_eq:
  "updatePreview_doc (js ''body{}'') demo_images (Some demo_favicon) demo_document
     = demo_page False True True"
  "updatePreview_doc (js ''body{}'') demo_images (Some demo_favicon) (demo_page True False False)
     = demo_page True True True"
  by (simp_all add: updatePreview_doc_def Let_def remove_head_styles_def head_appendChild_def
        style_element_def inject_image_def inject_favicon_def doc_update_first_def
        assign_src_def has_src_property_def
        demo_images_def demo_favicon_def demo_document_def demo_page_def
        empty_document_def sel_style_def by_id_def sel_link_icon_def getAttribute_def
        setAttribute_def js_def data_url_def ascii_lower_def is_ascii_upper_def)

lemma demo_populated_eq:
  "populateUI_doc (js ''A bakery'') [] (Some demo_favicon) demo_document
     = (demo_page True False False, js ''body{}'')"
  "populateUI_doc (js ''A bakery'') [] (Some demo_favicon) (demo_page True True True)
     = (demo_page True False True, js ''body{}'')"
  "populate_head (js ''A bakery'') [] (Some demo_favicon) (demo_page True False False)
     = demo_page True False False"
  by (simp_all add: populateUI_doc_def populate_head_def Let_def inject_meta_def
        create_favicon_link_def doc_first_style_def doc_remove_first_style_def
        head_appendChild_def doc_has_def doc_update_first_def
        demo_favicon_def demo_document_def demo_page_def
        empty_document_def sel_style_def sel_meta_def sel_link_icon_def getAttribute_def
        setAttribute_def js_def data_url_def ascii_lower_def is_ascii_upper_def)

lemma demo_parsed: "parsed_document (demo_page True False False)"
  by (simp add: parsed_document_def demo_page_def empty_document_def js_def)

lemma pre_previewed:
  "updatePreview_doc (js ''body{}'') [] None (pre_document styled text) = pre_document True text"
  by (simp add: updatePreview_doc_def Let_def remove_head_styles_def head_appendChild_def
        style_element_def inject_favicon_def pre_document_def empty_document_def sel_style_def
        js_def)

lemma pre_markup_differs: "pre_markup True (js ''x'') \<noteq> pre_markup True ([0x0A] @ js ''x'')"
  by (simp add: pre_markup_def js_def)

lemma pre_parse:
  "parseFromString pre_browser (pre_markup False ([0x0A, 0x0A] @ js ''x''))
     = pre_document False ([0x0A] @ js ''x'')"
  "parseFromString pre_browser (pre_markup True ([0x0A] @ js ''x'')) = pre_document True (js ''x'')"
  by (simp_all add: pre_browser_def table_browser_def pre_markup_def js_def)

lemma pre_write:
  "outerHTML pre_browser (pre_document True ([0x0A] @ js ''x'')) = pre_markup True ([0x0A] @ js ''x'')"
  "outerHTML pre_browser (pre_document True (js ''x'')) = pre_markup True (js ''x'')"
  by (simp_all add: pre_browser_def table_browser_def pre_document_def empty_document_def js_def)

subsection \<open>Idempotence\<close>

text \<open>
  Claim C3, as amended. On the parsed tree the resolution is idempotent. What
  \<^verbatim>\<open>updatePreview\<close> does between parsing and serialising (the style elements of the head
  removed, one style element appended, the sources of the images and the address of the
  icon written), done to its own result with the same CSS, images and favicon, gives
  that result again; and so do the find-or-create steps of \<^verbatim>\<open>populateUI\<close> for the meta
  description, the meta keywords and the icon link with the same values. Equal trees
  have equal elements and equal attribute lists: the second run adds no style, meta or
  link element and changes no attribute.

  On markup the resolution is idempotent as far as the browser's parser reads back what
  its serialiser wrote. \<^verbatim>\<open>updatePreview\<close> given its own output publishes that output again
  when the parser reads back the tree of the preview. \<^verbatim>\<open>populateUI\<close> given the preview it
  published publishes that preview again when the tree \<open>e\<close> that the parser builds from
  the markup in the HTML editor has the head elements of \<^verbatim>\<open>populateUI\<close> in place and its
  style elements hold text only, and the parser reads back the two trees serialised in
  the second run: the preview of \<open>e\<close>, and that preview without its style element.
  Nothing is claimed for markup the parser reads otherwise.
\<close>

theorem placeholder_resolution_idempotent:
  "updatePreview_doc css images fav (updatePreview_doc css images fav d)
     = updatePreview_doc css images fav d
   \<and> populate_head metaDesc metaKeywords fav (populate_head metaDesc metaKeywords fav d)
     = populate_head metaDesc metaKeywords fav d
   \<and> (reads_back c
          (updatePreview_doc css (latestGeneratedImages s) (latestFavicon s)
             (parseFromString c html)) \<longrightarrow>
        previewSrcdoc (updatePreview c (previewSrcdoc (updatePreview c html css s)) css s)
        = previewSrcdoc (updatePreview c html css s))
   \<and> (let s1 = populateUI c m images metaDesc metaKeywords s;
           e = parseFromString c (htmlEditor s1);
           r = updatePreview_doc (cssEditor s1) images (latestFavicon s) e
       in populate_head metaDesc metaKeywords (latestFavicon s) e = e
          \<and> parsed_document e
          \<and> reads_back c r
          \<and> reads_back c (fst (populateUI_doc metaDesc metaKeywords (latestFavicon s) r)) \<longrightarrow>
          previewSrcdoc (populateUI c (previewSrcdoc s1) images metaDesc metaKeywords s)
          = previewSrcdoc s1)"
  by (simp add: updatePreview_doc_twice populate_head_twice updatePreview_markup_twice
        populateUI_markup_twice Let_def)

theorem placeholder_resolution_idempotent_witness:
  "parseFromString demo_browser demo_start = demo_document
   \<and> updatePreview_doc (js ''body{}'') demo_images (Some demo_favicon) demo_document
       = demo_page False True True
   \<and> reads_back demo_browser (demo_page False True True)
   \<and> previewSrcdoc
         (updatePreview demo_browser
            (previewSrcdoc (updatePreview demo_browser demo_start (js ''body{}'') demo_site))
            (js ''body{}'') demo_site)
       = previewSrcdoc (updatePreview demo_browser demo_start (js ''body{}'') demo_site)
   \<and> htmlEditor (populateUI demo_browser demo_start demo_images (js ''A bakery'') [] demo_site)
       = demo_markup True False False
   \<and> parseFromString demo_browser (demo_markup True False False) = demo_page True False False
   \<and> populate_head (js ''A bakery'') [] (Some demo_favicon) (demo_page True False False)
       = demo_page True False False
   \<and> parsed_document (demo_page True False False)
   \<and> reads_back demo_browser (demo_page True True True)
   \<and> reads_back demo_browser (demo_page True False True)
   \<and> previewSrcdoc (populateUI demo_browser demo_start demo_images (js ''A bakery'') [] demo_site)
       = demo_markup True True True
   \<and> previewSrcdoc
         (populateUI demo_browser
            (previewSrcdoc
               (populateUI demo_browser demo_start demo_images (js ''A bakery'') [] demo_site))
            demo_images (js ''A bakery'') [] demo_site)
       = previewSrcdoc
           (populateUI demo_browser demo_start demo_images (js ''A bakery'') [] demo_site)"
proof -
  let ?s1 = "populateUI demo_browser demo_start demo_images (js ''A bakery'') [] demo_site"
  note t = placeholder_resolution_idempotent[where css = "js ''body{}''" and images = demo_images
      and fav = "Some demo_favicon" and d = demo_document and c = demo_browser
      and s = demo_site and html = demo_start and m = demo_start
      and metaDesc = "js ''A bakery''" and metaKeywords = "[]"]
  have s: "latestGeneratedImages demo_site = demo_images"
    "latestFavicon demo_site = Some demo_favicon"
    by (simp_all add: demo_site_def)
  have h: "reads_back demo_browser
          (updatePreview_doc (js ''body{}'') (latestGeneratedImages demo_site)
             (latestFavicon demo_site) (parseFromString demo_browser demo_start))"
    by (simp only: s demo_parse demo_previewed_eq demo_reads_back)
  note c3 = t[THEN conjunct2, THEN conjunct2, THEN conjunct1, THEN mp, OF h]
  have ed: "htmlEditor ?s1 = demo_markup True False False" "cssEditor ?s1 = js ''body{}''"
    by (simp_all only: populateUI_editors s demo_parse demo_populated_eq fst_conv snd_conv
          demo_write)
  have pv: "previewSrcdoc ?s1 = demo_markup True True True"
    by (simp only: populateUI_srcdoc ed s demo_parse demo_previewed_eq demo_write)
  have h4: "populate_head (js ''A bakery'') [] (latestFavicon demo_site)
              (parseFromString demo_browser (htmlEditor ?s1))
            = parseFromString demo_browser (htmlEditor ?s1)
        \<and> parsed_document (parseFromString demo_browser (htmlEditor ?s1))
        \<and> reads_back demo_browser
            (updatePreview_doc (cssEditor ?s1) demo_images (latestFavicon demo_site)
               (parseFromString demo_browser (htmlEditor ?s1)))
        \<and> reads_back demo_browser
            (fst (populateUI_doc (js ''A bakery'') [] (latestFavicon demo_site)
               (updatePreview_doc (cssEditor ?s1) demo_images (latestFavicon demo_site)
                  (parseFromString demo_browser (htmlEditor ?s1)))))"
    by (simp only: ed s demo_parse demo_previewed_eq demo_populated_eq demo_parsed
          demo_reads_back fst_conv simp_thms)
  note c4 = t[THEN conjunct2, THEN conjunct2, THEN conjunct2, unfolded Let_def, THEN mp, OF h4]
  from demo_parse demo_previewed_eq(1) demo_reads_back demo_populated_eq(3) demo_parsed
    c3 ed(1) pv c4
  show ?thesis by (simp only: simp_thms)
qed

text \<open>
  The claim as stated fails on markup. In a \<^verbatim>\<open>pre\<close> element that opens with two line
  feeds the parser drops the first. The preview of that page is written with the one
  line feed left, and the parser drops that one in turn: the preview of the preview has
  none, with the same CSS and the same (empty) assets.
\<close>

theorem preview_markup_not_idempotent:
  "previewSrcdoc
     (updatePreview pre_browser (pre_markup False ([0x0A, 0x0A] @ js ''x'')) (js ''body{}'')
        (initial_state True None))
     = pre_markup True ([0x0A] @ js ''x'')
   \<and> previewSrcdoc
       (updatePreview pre_browser (pre_markup True ([0x0A] @ js ''x'')) (js ''body{}'')
          (initial_state True None))
     = pre_markup True (js ''x'')
   \<and> previewSrcdoc
       (updatePreview pre_browser
          (previewSrcdoc
             (updatePreview pre_browser (pre_markup False ([0x0A, 0x0A] @ js ''x''))
                (js ''body{}'') (initial_state True None)))
          (js ''body{}'') (initial_state True None))
     \<noteq> previewSrcdoc
         (updatePreview pre_browser (pre_markup False ([0x0A, 0x0A] @ js ''x'')) (js ''body{}'')
            (initial_state True None))"
proof -
  have i: "latestGeneratedImages (initial_state True None) = []"
    "latestFavicon (initial_state True None) = None"
    by (simp_all add: initial_state_def)
  have a: "previewSrcdoc
     (updatePreview pre_browser (pre_markup False ([0x0A, 0x0A] @ js ''x'')) (js ''body{}'')
        (initial_state True None))
     = pre_markup True ([0x0A] @ js ''x'')"
    by (simp only: updatePreview_srcdoc i pre_parse pre_previewed pre_write)
  have b: "previewSrcdoc
       (updatePreview pre_browser (pre_markup True ([0x0A] @ js ''x'')) (js ''body{}'')
          (initial_state True None))
     = pre_markup True (js ''x'')"
    by (simp only: updatePreview_srcdoc i pre_parse pre_previewed pre_write)
  from a b pre_markup_differs show ?thesis by (simp only: simp_thms)
qed

end
